theory Spec2Isabelle
  imports Complex_Main
begin

section \<open>Errors\<close>

text \<open>
  Every Python exception the modelled code can raise is a value; a function that may
  raise returns \<open>py_error + 'a\<close> with \<open>Inl\<close> for the exception.
\<close>

datatype py_error =
    KeyError string
  | IndexError
  | UnboundLocalError string
  | AssertionError string
  | ValueError
  | TypeError
  | ExternalError string

section \<open>Model construction and checkpoints (crank/bin/train.py)\<close>

subsection \<open>Configuration\<close>

text \<open>
  The configuration is the dictionary read from the YAML file. The record has one field
  for each key that the modelled functions read, so a missing key is excluded by the
  type. \<open>alpha\<close> is the nested dictionary of loss weights; its keys \<open>"adv"\<close>,
  \<open>"acgan"\<close>, \<open>"fake"\<close> and \<open>"real"\<close> are the fields \<open>alpha_adv\<close>, \<open>alpha_acgan\<close>,
  \<open>alpha_fake\<close> and \<open>alpha_real\<close>. \<open>feature_label\<close> is \<open>conf["feature"]["label"]\<close>. The keys
  \<open>"encoder_receptive_size"\<close> and \<open>"decoder_receptive_size"\<close> are not in the file; \<open>main\<close>
  adds them, and \<open>None\<close> is the key not set.
\<close>

record alpha_conf =
  alpha_adv :: real
  alpha_acgan :: real
  alpha_fake :: real
  alpha_real :: real

record conf =
  use_spkradv_training :: bool
  use_spkr_classifier :: bool
  trainer_type :: string
  input_size :: int
  use_D_uv :: bool
  use_D_spkrcode :: bool
  use_spkr_embedding :: bool
  spkr_embedding_size :: int
  gan_type :: string
  acgan_flag :: bool
  use_real_only_acgan :: bool
  use_residual_network :: bool
  discriminator_kernel_size :: int
  n_discriminator_layers :: int
  n_discriminator_stacks :: int
  discriminator_dropout :: real
  spkr_classifier_kernel_size :: int
  n_spkr_classifier_layers :: int
  n_cycles :: int
  alpha :: alpha_conf
  feature_label :: string
  encoder_receptive_size :: "int option"
  decoder_receptive_size :: "int option"

subsection \<open>Networks\<close>

text \<open>
  The network classes are outside the repository's training code. A network is
  represented by the constructor call that builds it: the class and the arguments it is
  given. A Python value passed as \<open>layers\<close> is an integer in some calls and a list of
  strings in another, so the argument has a type with both. Whether the constructor of a
  discriminator class of the library returns for the arguments that it is given, or
  which exception it raises, is a parameter of \<open>get_model\<close>.
\<close>

datatype pyval = PyInt int | PyStrList "string list"

type_synonym scaler = "string option"

record pwg_args =
  in_channels :: int
  out_channels :: int
  kernel_size :: int
  layers :: pyval
  conv_channels :: int
  dilation_factor :: int
  nonlinear_activation :: string
  nonlinear_activation_params :: "(string \<times> real) list"
  bias :: bool
  use_weight_norm :: bool

record res_pwg_args =
  res_in_channels :: int
  res_out_channels :: int
  res_kernel_size :: int
  res_layers :: pyval
  res_stacks :: int
  res_dropout :: real

datatype net_class =
    VQVAE2 conf int scaler
  | SpeakerAdversarialNetwork conf int
  | ParallelWaveGANDiscriminator pwg_args
  | ResidualParallelWaveGANDiscriminator res_pwg_args

text \<open>\<open>net.to(device)\<close>: the network together with the device it was moved to.\<close>

record network =
  net :: net_class
  device :: string

definition to :: "net_class \<Rightarrow> string \<Rightarrow> network" where
  "to n d = \<lparr>net = n, device = d\<rparr>"

text \<open>Python's \<open>n * [s]\<close>: the list repeated \<open>n\<close> times, empty for \<open>n \<le> 0\<close>.\<close>

definition list_times :: "int \<Rightarrow> 'a list \<Rightarrow> 'a list" where
  "list_times n xs = concat (replicate (nat n) xs)"

subsection \<open>get_model\<close>

text \<open>
  The local variable \<open>output_channels\<close> is assigned only in the branch
  \<open>gan_type == "lsgan"\<close>; it is an \<open>int option\<close> with \<open>None\<close> for the unbound name.
  Reading it (in \<open>output_channels += spkr_size\<close> or as the keyword argument
  \<open>out_channels=output_channels\<close>) raises \<open>UnboundLocalError\<close>.
\<close>

definition read_local :: "string \<Rightarrow> 'a option \<Rightarrow> py_error + 'a" where
  "read_local name v = (case v of None \<Rightarrow> Inl (UnboundLocalError name) | Some x \<Rightarrow> Inr x)"

definition spkr_classifier :: "conf \<Rightarrow> int \<Rightarrow> net_class" where
  "spkr_classifier c spkr_size =
     ParallelWaveGANDiscriminator
       \<lparr>in_channels = input_size c,
        out_channels = spkr_size,
        kernel_size = spkr_classifier_kernel_size c,
        layers = PyInt (n_spkr_classifier_layers c),
        conv_channels = 64,
        dilation_factor = 1,
        nonlinear_activation = ''LeakyReLU'',
        nonlinear_activation_params = [(''negative_slope'', 2 / 10)],
        bias = True,
        use_weight_norm = True\<rparr>"

definition discriminator_input_channels :: "conf \<Rightarrow> int \<Rightarrow> int" where
  "discriminator_input_channels c spkr_size =
     (let input_channels = input_size c;
          input_channels = (if use_D_uv c then input_channels + 1 else input_channels);
          input_channels =
            (if use_D_spkrcode c then
               (if \<not> use_spkr_embedding c then input_channels + spkr_size
                else input_channels + spkr_embedding_size c)
             else input_channels)
      in input_channels)"

text \<open>
  The constructor call of the discriminator: the class that \<open>get_model\<close> chooses and
  the keyword arguments in the order in which they are evaluated. Nothing is said here
  about what the constructor does with them.
\<close>

definition discriminator_call :: "conf \<Rightarrow> int \<Rightarrow> py_error + net_class" where
  "discriminator_call c spkr_size =
     (let input_channels = discriminator_input_channels c spkr_size;
          output_channels = (if gan_type c = ''lsgan'' then Some 1 else None)
      in case (if acgan_flag c then
                 (case read_local ''output_channels'' output_channels of
                    Inl e \<Rightarrow> Inl e
                  | Inr oc \<Rightarrow> Inr (Some (oc + spkr_size)))
               else Inr output_channels) of
           Inl e \<Rightarrow> Inl e
         | Inr output_channels \<Rightarrow>
             (if use_residual_network c then
                (case read_local ''output_channels'' output_channels of
                   Inl e \<Rightarrow> Inl e
                 | Inr oc \<Rightarrow>
                     Inr (ResidualParallelWaveGANDiscriminator
                       \<lparr>res_in_channels = input_channels,
                        res_out_channels = oc,
                        res_kernel_size = discriminator_kernel_size c,
                        res_layers = PyInt (n_discriminator_layers c * n_discriminator_stacks c),
                        res_stacks = n_discriminator_stacks c,
                        res_dropout = discriminator_dropout c\<rparr>))
              else
                (case read_local ''output_channels'' output_channels of
                   Inl e \<Rightarrow> Inl e
                 | Inr oc \<Rightarrow>
                     Inr (ParallelWaveGANDiscriminator
                       \<lparr>in_channels = input_channels,
                        out_channels = oc,
                        kernel_size = discriminator_kernel_size c,
                        layers = PyStrList
                          (list_times (n_discriminator_layers c) [''n_discriminator_stacks'']),
                        conv_channels = 64,
                        dilation_factor = 1,
                        nonlinear_activation = ''LeakyReLU'',
                        nonlinear_activation_params = [(''negative_slope'', 2 / 10)],
                        bias = True,
                        use_weight_norm = True\<rparr>))))"

text \<open>
  \<open>init call\<close> is the exception that the constructor of the library raises for the
  discriminator call \<open>call\<close>, and \<open>None\<close> when it returns: \<open>get_model\<close> has the
  discriminator only when the constructor returns.
\<close>

definition get_model ::
  "(net_class \<Rightarrow> py_error option) \<Rightarrow> conf \<Rightarrow> int \<Rightarrow> string \<Rightarrow> scaler
     \<Rightarrow> py_error + (string \<rightharpoonup> network)" where
  "get_model init c spkr_size dev sc =
     (let models = [''G'' \<mapsto> to (VQVAE2 c spkr_size sc) dev];
          models =
            (if use_spkradv_training c
             then models(''SPKRADV'' \<mapsto> to (SpeakerAdversarialNetwork c spkr_size) dev)
             else models);
          models =
            (if use_spkr_classifier c
             then models(''C'' \<mapsto> to (spkr_classifier c spkr_size) dev)
             else models)
      in if trainer_type c \<in> set [''lsgan'', ''cyclegan'', ''stargan''] then
           (case discriminator_call c spkr_size of
              Inl e \<Rightarrow> Inl e
            | Inr call \<Rightarrow>
                (case init call of
                   Some e \<Rightarrow> Inl e
                 | None \<Rightarrow> Inr (models(''D'' \<mapsto> to call dev))))
         else Inr models)"

subsection \<open>load_checkpoint\<close>

text \<open>
  A checkpoint file holds the record \<open>{"model": {role: parameters}, "steps": integer}\<close>.
  \<open>torch.load\<close> reads the file and \<open>load_state_dict\<close> is a method of the network
  class; both are parameters of the model, and so is the type of the \<open>checkpoint\<close>
  argument (\<open>main\<close> passes a path or Python's \<open>None\<close>). \<open>load_state_dict\<close> returns the network with
  its parameters replaced (the Python mutates the network in place).
\<close>

record 'p state_dict =
  model :: "string \<rightharpoonup> 'p"
  steps :: int

definition getitem :: "(string \<rightharpoonup> 'v) \<Rightarrow> string \<Rightarrow> py_error + 'v" where
  "getitem d k = (case d k of None \<Rightarrow> Inl (KeyError k) | Some v \<Rightarrow> Inr v)"

fun load_roles ::
  "('n \<Rightarrow> 'p \<Rightarrow> 'n) \<Rightarrow> 'p state_dict \<Rightarrow> (string \<rightharpoonup> 'n) \<Rightarrow> string list \<Rightarrow> (string \<rightharpoonup> 'n)" where
  "load_roles load_state_dict sd mdl [] = mdl"
| "load_roles load_state_dict sd mdl (m # ms) =
     (case (model sd m, mdl m) of
        (Some p, Some n) \<Rightarrow> load_roles load_state_dict sd (mdl(m \<mapsto> load_state_dict n p)) ms
      | _ \<Rightarrow> load_roles load_state_dict sd mdl ms)"

definition load_checkpoint ::
  "('c \<Rightarrow> py_error + 'p state_dict) \<Rightarrow> ('n \<Rightarrow> 'p \<Rightarrow> 'n) \<Rightarrow>
   (string \<rightharpoonup> 'n) \<Rightarrow> 'c \<Rightarrow> py_error + ((string \<rightharpoonup> 'n) \<times> int)" where
  "load_checkpoint torch_load load_state_dict mdl checkpoint =
     (case torch_load checkpoint of
        Inl e \<Rightarrow> Inl e
      | Inr sd \<Rightarrow>
          (case getitem mdl ''G'' of
             Inl e \<Rightarrow> Inl e
           | Inr g \<Rightarrow>
               (case getitem (model sd) ''G'' of
                  Inl e \<Rightarrow> Inl e
                | Inr p \<Rightarrow>
                    Inr (load_roles load_state_dict sd (mdl(''G'' \<mapsto> load_state_dict g p))
                           [''D'', ''C'', ''SPKRADV''],
                         steps sd))))"


section \<open>The cycle trainer (crank/net/trainer/trainer_cyclegan.py)\<close>

subsection \<open>Tensors\<close>

text \<open>
  The trainer composes losses out of tensors; the networks and the loss functions are
  black boxes. A tensor is represented by the expression that computes it, which is the
  graph that automatic differentiation records: the leaves are the tensors given to the
  step, the nodes are the library operations the trainer applies.
  \<^item> \<open>Input s\<close>: a tensor given to the step, by name;
  \<^item> \<open>Const r\<close>: a Python number;
  \<^item> \<open>Op f xs\<close>: the result of an opaque operation \<open>f\<close> (a network's forward pass, a
    loss function, a helper of the parent class) applied to \<open>xs\<close>;
  \<^item> \<open>Detach x\<close>: \<open>x.detach()\<close>;
  \<^item> \<open>Transpose i j x\<close>: \<open>x.transpose(i, j)\<close>;
  \<^item> \<open>SplitPart k sizes d x\<close>: \<open>torch.split(x, sizes, dim=d)[k]\<close>;
  \<^item> \<open>MaskedSelect x m\<close>: \<open>x.masked_select(m)\<close>;
  \<^item> \<open>ReshapeRows x\<close>: \<open>x.reshape(-1, x.size(2))\<close>;
  \<^item> \<open>Flatten x\<close>: \<open>x.reshape(-1)\<close>;
  \<^item> \<open>OnesLike x\<close>, \<open>ZerosLike x\<close>: \<open>torch.ones_like(x)\<close>, \<open>torch.zeros_like(x)\<close>;
  \<^item> \<open>Scale a x\<close>: \<open>a * x\<close> for a Python number \<open>a\<close>;
  \<^item> \<open>Add x y\<close>: \<open>x + y\<close>.
\<close>

datatype tensor =
    Input string
  | Const real
  | Op string "tensor list"
  | Detach tensor
  | Transpose nat nat tensor
  | SplitPart nat "int list" nat tensor
  | MaskedSelect tensor tensor
  | ReshapeRows tensor
  | Flatten tensor
  | OnesLike tensor
  | ZerosLike tensor
  | Scale real tensor
  | Add tensor tensor

text \<open>The named inputs that an expression is computed from, from left to right.\<close>

primrec inputs :: "tensor \<Rightarrow> string list" where
  "inputs (Input s) = [s]"
| "inputs (Const r) = []"
| "inputs (Op f xs) = concat (map inputs xs)"
| "inputs (Detach x) = inputs x"
| "inputs (Transpose i j x) = inputs x"
| "inputs (SplitPart k sizes d x) = inputs x"
| "inputs (MaskedSelect x m) = inputs x @ inputs m"
| "inputs (ReshapeRows x) = inputs x"
| "inputs (Flatten x) = inputs x"
| "inputs (OnesLike x) = inputs x"
| "inputs (ZerosLike x) = inputs x"
| "inputs (Scale a x) = inputs x"
| "inputs (Add x y) = inputs x @ inputs y"

text \<open>
  The named inputs from which gradients reach an expression: those that it is computed
  from along a path with no \<open>detach\<close>.
\<close>

primrec attached :: "tensor \<Rightarrow> string list" where
  "attached (Input s) = [s]"
| "attached (Const r) = []"
| "attached (Op f xs) = concat (map attached xs)"
| "attached (Detach x) = []"
| "attached (Transpose i j x) = attached x"
| "attached (SplitPart k sizes d x) = attached x"
| "attached (MaskedSelect x m) = attached x @ attached m"
| "attached (ReshapeRows x) = attached x"
| "attached (Flatten x) = attached x"
| "attached (OnesLike x) = attached x"
| "attached (ZerosLike x) = attached x"
| "attached (Scale a x) = attached x"
| "attached (Add x y) = attached x @ attached y"

subsection \<open>Batch, cycle outputs, loss accumulator\<close>

text \<open>
  The batch is a dictionary of tensors; the record has the entries that the cycle
  trainer reads and \<open>aux\<close> for the rest. The generator's \<open>cycle_forward\<close> returns a list
  with one dictionary \<open>{"org": {...}, "cv": {...}}\<close> for each cycle; of each branch the
  trainer reads \<open>"decoded"\<close>.
\<close>

record batch =
  in_feats :: tensor
  decoder_mask :: tensor
  cycle_decoder_mask :: tensor
  org_h :: tensor
  cv_h :: tensor
  aux :: "string \<rightharpoonup> tensor"

record branch_output =
  decoded :: tensor
  others :: "string \<rightharpoonup> tensor"

record cycle_output =
  org :: branch_output
  cv :: branch_output

text \<open>\<open>outputs[c]\<close> for \<open>c \<ge> 0\<close>: \<open>IndexError\<close> beyond the end of the list.\<close>

definition list_get :: "'a list \<Rightarrow> nat \<Rightarrow> py_error + 'a" where
  "list_get xs i = (if i < length xs then Inr (xs ! i) else Inl IndexError)"

text \<open>\<open>outputs[c][io]\<close> and \<open>batch[f"{io}_h"]\<close> for \<open>io\<close> in \<open>["org", "cv"]\<close>.\<close>

definition branch :: "cycle_output \<Rightarrow> string \<Rightarrow> branch_output" where
  "branch out io = (if io = ''org'' then org out else cv out)"

definition batch_h :: "batch \<Rightarrow> string \<Rightarrow> tensor" where
  "batch_h b io = (if io = ''org'' then org_h b else cv_h b)"

type_synonym loss = "string \<rightharpoonup> tensor"

text \<open>\<open>loss[k] += x\<close>: reads \<open>loss[k]\<close>, so a missing key raises \<open>KeyError\<close>.\<close>

definition loss_iadd :: "loss \<Rightarrow> string \<Rightarrow> tensor \<Rightarrow> py_error + loss" where
  "loss_iadd l k x = (case l k of None \<Rightarrow> Inl (KeyError k) | Some v \<Rightarrow> Inr (l(k \<mapsto> Add v x)))"

subsection \<open>Sequencing and loops that an exception leaves\<close>

definition bind_err :: "py_error + 'a \<Rightarrow> ('a \<Rightarrow> py_error + 'b) \<Rightarrow> py_error + 'b" where
  "bind_err m f = (case m of Inl e \<Rightarrow> Inl e | Inr x \<Rightarrow> f x)"

text \<open>\<open>for x in xs: s = body(x, s)\<close>, left at the first exception.\<close>

fun for_err :: "'a list \<Rightarrow> ('a \<Rightarrow> 's \<Rightarrow> py_error + 's) \<Rightarrow> 's \<Rightarrow> py_error + 's" where
  "for_err [] body s = Inr s"
| "for_err (x # xs) body s = bind_err (body x s) (for_err xs body)"

text \<open>\<open>range(n)\<close> for an integer \<open>n\<close>: empty when \<open>n \<le> 0\<close>.\<close>

definition range_py :: "int \<Rightarrow> nat list" where
  "range_py n = [0..<nat n]"

subsection \<open>Formatting a cycle index\<close>

text \<open>\<open>f"{c}"\<close> for a non-negative integer: its decimal digits.\<close>

definition digit :: "nat \<Rightarrow> char" where
  "digit d = ''0123456789'' ! d"

function string_of_nat :: "nat \<Rightarrow> string" where
  "string_of_nat n = (if n < 10 then [digit n] else string_of_nat (n div 10) @ [digit (n mod 10)])"
  by pat_completeness auto
termination
  by (relation "measure id") auto

declare string_of_nat.simps [simp del]

subsection \<open>The trainer object\<close>

text \<open>
  \<open>CycleGANTrainer\<close> inherits from \<open>LSGANTrainer\<close>, which is not part of the modelled
  sources. The attributes and the inherited methods that the cycle trainer uses are
  fields of the record: the configuration, \<open>stop_generator\<close>, \<open>n_spkrs\<close>, the networks
  of \<open>self.model\<close> as functions of their input, the generator's \<open>cycle_forward\<close>, the
  loss functions of \<open>self.criterion\<close>, and the inherited methods \<open>_get_enc_h\<close>,
  \<open>_get_dec_h\<close>, \<open>get_D_inputs\<close>, \<open>calculate_vqvae_loss\<close>,
  \<open>calculate_cyclevqvae_loss\<close> and \<open>calculate_spkradv_loss\<close>.
\<close>

record trainer =
  conf :: conf
  stop_generator :: bool
  n_spkrs :: int
  model :: "string \<rightharpoonup> (tensor \<Rightarrow> tensor)"
  cycle_forward ::
    "tensor \<Rightarrow> tensor \<Rightarrow> tensor \<Rightarrow> tensor \<Rightarrow> tensor \<Rightarrow> tensor \<Rightarrow> tensor
       \<Rightarrow> py_error + cycle_output list"
  criterion :: "string \<rightharpoonup> (tensor \<Rightarrow> tensor \<Rightarrow> tensor)"
  get_enc_h :: "batch \<Rightarrow> bool \<Rightarrow> tensor"
  get_dec_h :: "batch \<Rightarrow> bool \<Rightarrow> tensor \<times> tensor"
  get_D_inputs :: "batch \<Rightarrow> tensor \<Rightarrow> string \<Rightarrow> tensor"
  calculate_vqvae_loss :: "batch \<Rightarrow> branch_output \<Rightarrow> loss \<Rightarrow> py_error + loss"
  calculate_cyclevqvae_loss :: "batch \<Rightarrow> cycle_output list \<Rightarrow> loss \<Rightarrow> py_error + loss"
  calculate_spkradv_loss :: "batch \<Rightarrow> branch_output \<Rightarrow> loss \<Rightarrow> string \<Rightarrow> py_error + loss"

text \<open>
  The local function \<open>return_sample\<close> of both loss methods:
  \<open>self.model["D"](x.transpose(1, 2)).transpose(1, 2)\<close>.
\<close>

definition return_sample :: "trainer \<Rightarrow> tensor \<Rightarrow> py_error + tensor" where
  "return_sample tr x =
     bind_err (getitem (model tr) ''D'') (\<lambda>D. Inr (Transpose 1 2 (D (Transpose 1 2 x))))"

definition criterion_call :: "trainer \<Rightarrow> string \<Rightarrow> tensor \<Rightarrow> tensor \<Rightarrow> py_error + tensor" where
  "criterion_call tr name x y = bind_err (getitem (criterion tr) name) (\<lambda>f. Inr (f x y))"

subsection \<open>calculate_cycleadv_loss\<close>

text \<open>The body of the inner loop, for cycle \<open>c\<close> and branch \<open>io\<close>.\<close>

definition cycleadv_body ::
  "trainer \<Rightarrow> batch \<Rightarrow> cycle_output list \<Rightarrow> tensor \<Rightarrow> nat \<Rightarrow> string \<Rightarrow> loss \<Rightarrow> py_error + loss" where
  "cycleadv_body tr b outputs msk c io l =
     (let lbl = string_of_nat c @ ''cyc_'' @ io in
      bind_err (list_get outputs c) (\<lambda>out.
      let D_inputs = get_D_inputs tr b (decoded (branch out io)) ''cv'' in
      bind_err (return_sample tr D_inputs) (\<lambda>D_outputs.
      bind_err
        (if acgan_flag (conf tr) then
           (let spkr_cls = SplitPart 1 [1, n_spkrs tr] 2 D_outputs;
                D_outputs = SplitPart 0 [1, n_spkrs tr] 2 D_outputs;
                D_outputs = MaskedSelect D_outputs msk
            in bind_err (criterion_call tr ''ce'' (ReshapeRows spkr_cls) (Flatten (batch_h b io)))
                 (\<lambda>ce.
                    let l = l(''D_acgan_adv_'' @ lbl \<mapsto> ce) in
                    bind_err (getitem l (''D_acgan_adv_'' @ lbl)) (\<lambda>v.
                    bind_err (loss_iadd l ''G'' (Scale (alpha_acgan (alpha (conf tr))) v))
                      (\<lambda>l. Inr (D_outputs, l)))))
         else Inr (D_outputs, l))
        (\<lambda>(D_outputs, l).
           bind_err (criterion_call tr ''mse'' D_outputs (OnesLike D_outputs)) (\<lambda>mse.
           let l = l(''D_adv_'' @ lbl \<mapsto> mse) in
           bind_err (getitem l (''D_adv_'' @ lbl)) (\<lambda>v.
           loss_iadd l ''G'' (Scale (alpha_adv (alpha (conf tr))) v)))))))"

definition calculate_cycleadv_loss ::
  "trainer \<Rightarrow> batch \<Rightarrow> cycle_output list \<Rightarrow> loss \<Rightarrow> py_error + loss" where
  "calculate_cycleadv_loss tr b outputs l =
     (let msk = decoder_mask b in
      for_err (range_py (n_cycles (conf tr)))
        (\<lambda>c. for_err [''org'', ''cv''] (cycleadv_body tr b outputs msk c)) l)"

subsection \<open>calculate_cycle_discriminator_loss\<close>

text \<open>
  \<open>random.choice\<close> draws from the global generator of the \<open>random\<close> module. The state
  of the generator is the sequence of the draws to come; a call takes the first one as
  an index into the list and leaves the rest. An empty list raises \<open>IndexError\<close>.
\<close>

type_synonym rng = "nat \<Rightarrow> nat"

definition random_choice :: "'a list \<Rightarrow> rng \<Rightarrow> py_error + ('a \<times> rng)" where
  "random_choice xs g =
     (if xs = [] then Inl IndexError else Inr (xs ! (g 0 mod length xs), \<lambda>i. g (Suc i)))"

text \<open>The body of \<open>for k in sample.keys()\<close> under \<open>acgan_flag\<close>.\<close>

definition discriminator_acgan_body ::
  "trainer \<Rightarrow> batch \<Rightarrow> string \<Rightarrow> string \<Rightarrow> (string \<rightharpoonup> tensor) \<times> loss
     \<Rightarrow> py_error + ((string \<rightharpoonup> tensor) \<times> loss)" where
  "discriminator_acgan_body tr b lbl k = (\<lambda>(sample, l).
     let h = (if k \<in> set [''real'', ''org_fake''] then org_h b else cv_h b) in
     bind_err (getitem sample k) (\<lambda>sk.
     let spkr_cls = SplitPart 1 [1, n_spkrs tr] 2 sk;
         sample = sample(k \<mapsto> SplitPart 0 [1, n_spkrs tr] 2 sk)
     in bind_err (criterion_call tr ''ce'' (ReshapeRows spkr_cls) (Flatten h)) (\<lambda>ce.
     let l = l(''D_ce_'' @ k @ ''_'' @ lbl \<mapsto> ce) in
     if \<not> (use_real_only_acgan (conf tr) \<and> k = ''org_fake'') then
       bind_err (getitem l (''D_ce_'' @ k @ ''_'' @ lbl)) (\<lambda>v.
       bind_err (loss_iadd l ''D'' (Scale (alpha_acgan (alpha (conf tr))) v)) (\<lambda>l.
       Inr (sample, l)))
     else Inr (sample, l))))"

text \<open>The body of \<open>for c in range(self.conf["n_cycles"])\<close>.\<close>

definition cycle_discriminator_body ::
  "trainer \<Rightarrow> batch \<Rightarrow> cycle_output list \<Rightarrow> nat \<Rightarrow> loss \<times> rng \<Rightarrow> py_error + (loss \<times> rng)" where
  "cycle_discriminator_body tr b outputs c = (\<lambda>(l, g).
     let lbl = string_of_nat c @ ''cyc'';
         real_inputs = get_D_inputs tr b (in_feats b) ''org''
     in
     bind_err (list_get outputs 0) (\<lambda>out.
     let org_fake_inputs = get_D_inputs tr b (Detach (decoded (branch out ''org''))) ''org'' in
     bind_err (list_get outputs 0) (\<lambda>out.
     let cv_fake_inputs = get_D_inputs tr b (Detach (decoded (branch out ''cv''))) ''cv'' in
     bind_err (return_sample tr real_inputs) (\<lambda>s_real.
     bind_err (return_sample tr org_fake_inputs) (\<lambda>s_org_fake.
     bind_err (return_sample tr cv_fake_inputs) (\<lambda>s_cv_fake.
     let sample = [''real'' \<mapsto> s_real, ''org_fake'' \<mapsto> s_org_fake, ''cv_fake'' \<mapsto> s_cv_fake] in
     bind_err
       (if acgan_flag (conf tr) then
          for_err [''real'', ''org_fake'', ''cv_fake''] (discriminator_acgan_body tr b lbl)
            (sample, l)
        else Inr (sample, l))
       (\<lambda>(sample, l).
     bind_err (getitem sample ''real'') (\<lambda>s.
     let real_sample = MaskedSelect s (decoder_mask b) in
     bind_err (criterion_call tr ''mse'' real_sample (OnesLike real_sample)) (\<lambda>mse_real.
     let l = l(''D_real_'' @ lbl \<mapsto> mse_real) in
     bind_err (random_choice [''org_fake'', ''cv_fake''] g) (\<lambda>(fake_key, g).
     let msk = (if fake_key = ''org_fake'' then cycle_decoder_mask b else decoder_mask b) in
     bind_err (getitem sample fake_key) (\<lambda>s.
     let fake_sample = MaskedSelect s msk in
     bind_err (criterion_call tr ''mse'' fake_sample (ZerosLike fake_sample)) (\<lambda>mse_fake.
     let l = l(''D_fake_'' @ lbl \<mapsto> mse_fake) in
     bind_err (getitem l ''D'') (\<lambda>d.
     bind_err (getitem l (''D_fake_'' @ lbl)) (\<lambda>vf.
     bind_err (getitem l (''D_real_'' @ lbl)) (\<lambda>vr.
     Inr (l(''D'' \<mapsto> Add d (Add (Scale (alpha_fake (alpha (conf tr))) vf)
                                 (Scale (alpha_real (alpha (conf tr))) vr))),
          g))))))))))))))))"

definition calculate_cycle_discriminator_loss ::
  "trainer \<Rightarrow> batch \<Rightarrow> cycle_output list \<Rightarrow> loss \<Rightarrow> rng \<Rightarrow> py_error + (loss \<times> rng)" where
  "calculate_cycle_discriminator_loss tr b outputs l g =
     for_err (range_py (n_cycles (conf tr))) (cycle_discriminator_body tr b outputs) (l, g)"

subsection \<open>update_G and update_D\<close>

text \<open>
  What a training step changes outside the loss accumulator: the optimizer steps taken
  so far, each with the network's role and the loss that was backpropagated, and the
  state of the random generator.
\<close>

record tstate =
  stepped :: "(string \<times> tensor) list"
  rand :: rng

text \<open>
  Modelled from the spec: \<open>step_model\<close> is a method of the base trainer class, which is
  not part of the modelled sources. By the specification, \<open>step_model(loss, model)\<close>
  zeroes the gradients of the optimizer of \<open>model\<close>, backpropagates \<open>loss[model]\<close>,
  clips the gradients if configured and applies the optimizer step. The model records
  the step and the loss it backpropagates; \<open>loss[model]\<close> of a missing key raises
  \<open>KeyError\<close>.
\<close>

definition step_model :: "loss \<Rightarrow> string \<Rightarrow> tstate \<Rightarrow> py_error + tstate" where
  "step_model l m st =
     bind_err (getitem l m) (\<lambda>v. Inr (st\<lparr>stepped := stepped st @ [(m, v)]\<rparr>))"

text \<open>The statements of \<open>update_G\<close> before the optimizer step: the loss accumulator.\<close>

definition update_G_losses :: "trainer \<Rightarrow> batch \<Rightarrow> loss \<Rightarrow> string \<Rightarrow> py_error + loss" where
  "update_G_losses tr b l phase =
     (let enc_h = get_enc_h tr b False;
          enc_h_cv = get_enc_h tr b True;
          (dec_h, spkrvec) = get_dec_h tr b False;
          (dec_h_cv, spkrvec_cv) = get_dec_h tr b True;
          feats = in_feats b
      in
      bind_err (getitem (model tr) ''G'') (\<lambda>G.
      bind_err (cycle_forward tr feats enc_h dec_h enc_h_cv dec_h_cv spkrvec spkrvec_cv)
        (\<lambda>cycle_outputs.
      bind_err (list_get cycle_outputs 0) (\<lambda>out.
      bind_err (calculate_vqvae_loss tr b (branch out ''org'') l) (\<lambda>l.
      bind_err (calculate_cyclevqvae_loss tr b cycle_outputs l) (\<lambda>l.
      bind_err
        (if use_spkradv_training (conf tr) then
           bind_err (list_get cycle_outputs 0) (\<lambda>out.
           calculate_spkradv_loss tr b (branch out ''org'') l phase)
         else Inr l) (\<lambda>l.
      calculate_cycleadv_loss tr b cycle_outputs l)))))))"

definition update_G ::
  "trainer \<Rightarrow> batch \<Rightarrow> loss \<Rightarrow> string \<Rightarrow> tstate \<Rightarrow> py_error + (loss \<times> tstate)" where
  "update_G tr b l phase st =
     bind_err (update_G_losses tr b l phase) (\<lambda>l.
     if phase = ''train'' \<and> \<not> stop_generator tr then
       bind_err (step_model l ''G'' st) (\<lambda>st. Inr (l, st))
     else Inr (l, st))"

text \<open>The statements of \<open>update_D\<close> before the optimizer step.\<close>

definition update_D_losses :: "trainer \<Rightarrow> batch \<Rightarrow> loss \<Rightarrow> rng \<Rightarrow> py_error + (loss \<times> rng)" where
  "update_D_losses tr b l g =
     (let enc_h = get_enc_h tr b False;
          enc_h_cv = get_enc_h tr b True;
          (dec_h, spkrvec) = get_dec_h tr b False;
          (dec_h_cv, spkrvec_cv) = get_dec_h tr b True;
          feats = in_feats b
      in
      bind_err (getitem (model tr) ''G'') (\<lambda>G.
      bind_err (cycle_forward tr feats enc_h dec_h enc_h_cv dec_h_cv spkrvec spkrvec_cv)
        (\<lambda>outputs.
      calculate_cycle_discriminator_loss tr b outputs l g)))"

definition update_D ::
  "trainer \<Rightarrow> batch \<Rightarrow> loss \<Rightarrow> string \<Rightarrow> tstate \<Rightarrow> py_error + (loss \<times> tstate)" where
  "update_D tr b l phase st =
     bind_err (update_D_losses tr b l (rand st)) (\<lambda>(l, g).
     let st = st\<lparr>rand := g\<rparr> in
     if phase = ''train'' then
       bind_err (step_model l ''D'' st) (\<lambda>st. Inr (l, st))
     else Inr (l, st))"

section \<open>The entry point (crank/bin/train.py, main)\<close>

subsection \<open>Command line, environment and external calls\<close>

text \<open>
  \<open>main\<close> takes the parsed command line. An option that is not given is Python's
  \<open>None\<close>; \<open>--checkpoint\<close> and \<open>--featsscp\<close>, which the code compares with the string
  \<open>"None"\<close>, are options, the others are strings.
\<close>

record args =
  arg_flag :: string
  arg_n_jobs :: int
  arg_conf :: string
  arg_checkpoint :: "string option"
  arg_scpdir :: string
  arg_featdir :: string
  arg_featsscp :: "string option"
  arg_expdir :: string

record scp =
  spkrs :: "string list"
  feats :: "string option"

text \<open>
  Every call that leaves the module is an event: reading the configuration, opening the
  data lists, creating the directory, loading the scaler, building the networks,
  listing and reading checkpoints, building the optimizer, criterion, data loader,
  scheduler and writers, and running the trainer.
\<close>

datatype event =
    LoadYaml string
  | OpenScpdir string
  | OpenFeatsscp "string option"
  | Mkdir string
  | JoblibLoad string
  | GetModel int string
  | Glob string string
  | TorchLoad "string option"
  | GetOptimizer
  | GetCriterion
  | GetDataloader int string
  | GetScheduler
  | SummaryWriter string
  | TrainerRun string string int

text \<open>
  The environment answers the external calls: whether CUDA is available, what the
  files hold, what \<open>pathlib\<close> returns, what the constructors of the discriminator
  classes raise, the receptive sizes of the generator, and whether a call whose result
  the model does not look at raises.
\<close>

record 'p env =
  cuda_is_available :: bool
  load_yaml :: "string \<Rightarrow> py_error + conf"
  open_scpdir :: "string \<Rightarrow> py_error + scp"
  open_featsscp :: "string option \<Rightarrow> py_error + string"
  joblib_load :: "string \<Rightarrow> py_error + string"
  path_join :: "string \<Rightarrow> string \<Rightarrow> string"
  path_stem :: "string \<Rightarrow> string"
  glob :: "string \<Rightarrow> string \<Rightarrow> string list"
  torch_load :: "string option \<Rightarrow> py_error + 'p state_dict"
  load_state_dict :: "network \<Rightarrow> 'p \<Rightarrow> network"
  discriminator_init :: "net_class \<Rightarrow> py_error option"
  receptive_sizes :: "network \<Rightarrow> int \<times> int"
  raises :: "event \<Rightarrow> py_error option"

text \<open>
  A computation with external calls takes the events so far and returns its result, or
  the exception that ends it, with the events extended.
\<close>

type_synonym 'a io = "event list \<Rightarrow> (py_error + 'a) \<times> event list"

definition io_return :: "'a \<Rightarrow> 'a io" where
  "io_return x = (\<lambda>evs. (Inr x, evs))"

definition io_raise :: "py_error \<Rightarrow> 'a io" where
  "io_raise e = (\<lambda>evs. (Inl e, evs))"

definition io_bind :: "'a io \<Rightarrow> ('a \<Rightarrow> 'b io) \<Rightarrow> 'b io" where
  "io_bind m f = (\<lambda>evs. case m evs of (Inl e, evs') \<Rightarrow> (Inl e, evs') | (Inr x, evs') \<Rightarrow> f x evs')"

text \<open>An external call is recorded, then returns or raises.\<close>

definition io_call :: "event \<Rightarrow> py_error + 'a \<Rightarrow> 'a io" where
  "io_call ev r = (\<lambda>evs. (r, evs @ [ev]))"

definition io_do :: "'p env \<Rightarrow> event \<Rightarrow> unit io" where
  "io_do e ev = io_call ev (case raises e ev of None \<Rightarrow> Inr () | Some err \<Rightarrow> Inl err)"

definition io_lift :: "py_error + 'a \<Rightarrow> 'a io" where
  "io_lift r = (\<lambda>evs. (r, evs))"

text \<open>\<open>assert c, msg\<close>.\<close>

definition io_assert :: "bool \<Rightarrow> string \<Rightarrow> unit io" where
  "io_assert c msg = (if c then io_return () else io_raise (AssertionError msg))"

subsection \<open>Finding the last checkpoint\<close>

text \<open>
  \<open>re.findall("[0-9]+", s)[0]\<close>: the first maximal run of decimal digits of \<open>s\<close>,
  \<open>IndexError\<close> when \<open>s\<close> has no digit.
\<close>

definition is_digit :: "char \<Rightarrow> bool" where
  "is_digit c = (c \<in> set ''0123456789'')"

definition first_digits :: "string \<Rightarrow> py_error + string" where
  "first_digits s =
     (let r = dropWhile (\<lambda>c. \<not> is_digit c) s
      in if r = [] then Inl IndexError else Inr (takeWhile is_digit r))"

text \<open>\<open>int(s)\<close> for a string of decimal digits.\<close>

definition digit_value :: "char \<Rightarrow> int" where
  "digit_value c = int (length (takeWhile (\<lambda>d. d \<noteq> c) ''0123456789''))"

definition int_of_digits :: "string \<Rightarrow> int" where
  "int_of_digits s = foldl (\<lambda>n c. 10 * n + digit_value c) 0 s"

text \<open>\<open>max(xs)\<close>: \<open>ValueError\<close> on the empty list.\<close>

definition py_max :: "int list \<Rightarrow> py_error + int" where
  "py_max xs = (case xs of [] \<Rightarrow> Inl ValueError | x # ys \<Rightarrow> Inr (fold max ys x))"

text \<open>\<open>s in p\<close> for strings.\<close>

primrec is_substring :: "string \<Rightarrow> string \<Rightarrow> bool" where
  "is_substring s [] = (s = [])"
| "is_substring s (c # cs) = (take (length s) (c # cs) = s \<or> is_substring s cs)"

text \<open>\<open>[f(x) for x in xs]\<close> where \<open>f\<close> may raise.\<close>

fun map_err :: "('a \<Rightarrow> py_error + 'b) \<Rightarrow> 'a list \<Rightarrow> py_error + 'b list" where
  "map_err f [] = Inr []"
| "map_err f (x # xs) =
     bind_err (f x) (\<lambda>y. bind_err (map_err f xs) (\<lambda>ys. Inr (y # ys)))"

text \<open>
  The search of \<open>main\<close> for the checkpoint of the highest step among the files
  \<open>checkpoint_*steps.pkl\<close> of the experiment directory.
\<close>

definition latest_checkpoint :: "'p env \<Rightarrow> string list \<Rightarrow> py_error + string" where
  "latest_checkpoint e pkls =
     bind_err (map_err (\<lambda>p. first_digits (path_stem e p)) pkls) (\<lambda>steps.
     bind_err (py_max (map int_of_digits steps)) (\<lambda>max_step.
     list_get (filter (\<lambda>p. is_substring (string_of_nat (nat max_step)) p) pkls) 0))"

subsection \<open>main\<close>

definition main :: "'p env \<Rightarrow> args \<Rightarrow> unit io" where
  "main e a =
     (let device = (if cuda_is_available e then ''cuda'' else ''cpu'') in
      io_bind (io_assert (device = ''cuda'') ''ERROR: Do not accept CPU training.'') (\<lambda>_.
      io_bind (io_call (LoadYaml (arg_conf a)) (load_yaml e (arg_conf a))) (\<lambda>conf.
      let featdir = path_join e (arg_featdir a) (feature_label conf) in
      io_bind (io_call (OpenScpdir (path_join e (arg_scpdir a) ''train''))
                 (open_scpdir e (path_join e (arg_scpdir a) ''train''))) (\<lambda>scp_train.
      io_bind (io_call (OpenFeatsscp (Some (path_join e (path_join e featdir ''train'') ''feats.scp'')))
                 (open_featsscp e (Some (path_join e (path_join e featdir ''train'') ''feats.scp''))))
        (\<lambda>f.
      let scp_train = scp_train\<lparr>feats := Some f\<rparr> in
      io_bind (io_call (OpenScpdir (path_join e (arg_scpdir a) ''dev''))
                 (open_scpdir e (path_join e (arg_scpdir a) ''dev''))) (\<lambda>scp_dev.
      io_bind (io_call (OpenFeatsscp (Some (path_join e (path_join e featdir ''dev'') ''feats.scp'')))
                 (open_featsscp e (Some (path_join e (path_join e featdir ''dev'') ''feats.scp''))))
        (\<lambda>f.
      let scp_dev = scp_dev\<lparr>feats := Some f\<rparr> in
      io_bind (io_call (OpenScpdir (path_join e (arg_scpdir a) ''eval''))
                 (open_scpdir e (path_join e (arg_scpdir a) ''eval''))) (\<lambda>scp_eval.
      io_bind (io_call (OpenFeatsscp (Some (path_join e (path_join e featdir ''eval'') ''feats.scp'')))
                 (open_featsscp e (Some (path_join e (path_join e featdir ''eval'') ''feats.scp''))))
        (\<lambda>f.
      let scp_eval = scp_eval\<lparr>feats := Some f\<rparr> in
      io_bind
        (if arg_flag a = ''eval'' \<and> arg_featsscp a \<noteq> Some ''None'' then
           io_bind (io_call (OpenFeatsscp (arg_featsscp a)) (open_featsscp e (arg_featsscp a)))
             (\<lambda>f. io_return (scp_eval\<lparr>feats := Some f\<rparr>))
         else io_return scp_eval) (\<lambda>scp_eval.
      let expdir = path_join e (arg_expdir a) (path_stem e (arg_conf a)) in
      io_bind (io_do e (Mkdir expdir)) (\<lambda>_.
      let spkr_size = int (length (spkrs scp_train)) in
      io_bind (io_call (JoblibLoad (path_join e featdir ''scaler.pkl''))
                 (joblib_load e (path_join e featdir ''scaler.pkl''))) (\<lambda>scaler.
      io_bind (io_call (GetModel spkr_size device) (get_model (discriminator_init e) conf spkr_size device (Some scaler)))
        (\<lambda>model.
      let resume = 0 in
      io_bind
        (if arg_checkpoint a \<noteq> Some ''None'' then
           io_call (TorchLoad (arg_checkpoint a))
             (load_checkpoint (torch_load e) (load_state_dict e) model (arg_checkpoint a))
         else if arg_flag a \<in> set [''reconstruction'', ''eval''] then
           (let pkls = glob e expdir ''checkpoint_*steps.pkl'' in
            io_bind (io_do e (Glob expdir ''checkpoint_*steps.pkl'')) (\<lambda>_.
            io_bind (io_lift (latest_checkpoint e pkls)) (\<lambda>checkpoint.
            io_call (TorchLoad (Some checkpoint))
              (load_checkpoint (torch_load e) (load_state_dict e) model (Some checkpoint)))))
         else io_return (model, resume)) (\<lambda>(model, resume).
      io_bind (io_lift (getitem model ''G'')) (\<lambda>G.
      let conf = conf\<lparr>encoder_receptive_size := Some (fst (receptive_sizes e G))\<rparr> in
      io_bind (io_lift (getitem model ''G'')) (\<lambda>G.
      let conf = conf\<lparr>decoder_receptive_size := Some (snd (receptive_sizes e G))\<rparr> in
      io_bind (io_do e GetOptimizer) (\<lambda>_.
      io_bind (io_do e GetCriterion) (\<lambda>_.
      io_bind (io_do e (GetDataloader (arg_n_jobs a) (arg_flag a))) (\<lambda>_.
      io_bind (io_do e GetScheduler) (\<lambda>_.
      io_bind (io_do e (SummaryWriter (arg_expdir a @ ''/runs/train-'' @ path_stem e (arg_conf a))))
        (\<lambda>_.
      io_bind (io_do e (SummaryWriter (arg_expdir a @ ''/runs/dev-'' @ path_stem e (arg_conf a))))
        (\<lambda>_.
      io_do e (TrainerRun (trainer_type conf) (arg_flag a) resume)))))))))))))))))))))))"

section \<open>Sample inputs\<close>

text \<open>A configuration of the cycle trainer with two cycles, used to run the model.\<close>

definition sample_conf :: conf where
  "sample_conf =
     \<lparr>use_spkradv_training = False,
      use_spkr_classifier = False,
      trainer_type = ''cyclegan'',
      input_size = 40,
      use_D_uv = True,
      use_D_spkrcode = False,
      use_spkr_embedding = False,
      spkr_embedding_size = 32,
      gan_type = ''lsgan'',
      acgan_flag = False,
      use_real_only_acgan = False,
      use_residual_network = False,
      discriminator_kernel_size = 5,
      n_discriminator_layers = 2,
      n_discriminator_stacks = 1,
      discriminator_dropout = 0,
      spkr_classifier_kernel_size = 5,
      n_spkr_classifier_layers = 3,
      n_cycles = 2,
      alpha = \<lparr>alpha_adv = 2, alpha_acgan = 3, alpha_fake = 5, alpha_real = 7\<rparr>,
      feature_label = ''mlfb'',
      encoder_receptive_size = None,
      decoder_receptive_size = None\<rparr>"

text \<open>
  A batch, the outputs of two cycles and a trainer whose black boxes are opaque
  operations: every network, loss function and inherited helper returns the \<open>Op\<close>
  node of its name applied to its arguments.
\<close>

definition sample_batch :: batch where
  "sample_batch =
     \<lparr>in_feats = Input ''in_feats'',
      decoder_mask = Input ''decoder_mask'',
      cycle_decoder_mask = Input ''cycle_decoder_mask'',
      org_h = Input ''org_h'',
      cv_h = Input ''cv_h'',
      aux = Map.empty\<rparr>"

definition sample_outputs :: "cycle_output list" where
  "sample_outputs =
     [\<lparr>org = \<lparr>decoded = Input ''decoded_0_org'', others = Map.empty\<rparr>,
       cv = \<lparr>decoded = Input ''decoded_0_cv'', others = Map.empty\<rparr>\<rparr>,
      \<lparr>org = \<lparr>decoded = Input ''decoded_1_org'', others = Map.empty\<rparr>,
       cv = \<lparr>decoded = Input ''decoded_1_cv'', others = Map.empty\<rparr>\<rparr>]"

definition sample_trainer :: trainer where
  "sample_trainer =
     \<lparr>conf = sample_conf,
      stop_generator = False,
      n_spkrs = 4,
      model = [''G'' \<mapsto> (\<lambda>x. Op ''G'' [x]), ''D'' \<mapsto> (\<lambda>x. Op ''D'' [x])],
      cycle_forward = (\<lambda>feats enc_h dec_h enc_h_cv dec_h_cv spkrvec spkrvec_cv.
         Inr sample_outputs),
      criterion = [''mse'' \<mapsto> (\<lambda>x y. Op ''mse'' [x, y]), ''ce'' \<mapsto> (\<lambda>x y. Op ''ce'' [x, y])],
      get_enc_h = (\<lambda>b cv. Op ''enc_h'' [in_feats b]),
      get_dec_h = (\<lambda>b cv. (Op ''dec_h'' [in_feats b], Op ''spkrvec'' [in_feats b])),
      get_D_inputs = (\<lambda>b x label. Op (''get_D_inputs_'' @ label) [x]),
      calculate_vqvae_loss = (\<lambda>b out l. loss_iadd l ''G'' (Op ''vqvae'' [decoded out])),
      calculate_cyclevqvae_loss = (\<lambda>b outs l. loss_iadd l ''G'' (Op ''cyclevqvae'' [])),
      calculate_spkradv_loss = (\<lambda>b out l phase. loss_iadd l ''G'' (Op ''spkradv'' []))\<rparr>"

text \<open>The accumulator at the start of a step: both totals are zero.\<close>

definition sample_loss :: loss where
  "sample_loss = [''G'' \<mapsto> Const 0, ''D'' \<mapsto> Const 0]"

text \<open>
  A command line for training and an environment with CUDA in which every file is found
  and no call outside the constructors of the discriminator classes raises.
\<close>

definition sample_args :: args where
  "sample_args =
     \<lparr>arg_flag = ''train'',
      arg_n_jobs = 4,
      arg_conf = ''conf/cyclegan.yml'',
      arg_checkpoint = Some ''None'',
      arg_scpdir = ''data/scp'',
      arg_featdir = ''data/feature'',
      arg_featsscp = Some ''None'',
      arg_expdir = ''exp''\<rparr>"

text \<open>
  A constructor of the discriminator classes that raises \<open>TypeError\<close> when \<open>layers\<close> is
  not an integer, as the arithmetic on \<open>layers\<close> in the library does, and returns
  otherwise.
\<close>

definition sample_init :: "net_class \<Rightarrow> py_error option" where
  "sample_init call =
     (case call of
        ParallelWaveGANDiscriminator a \<Rightarrow>
          (case layers a of PyInt n \<Rightarrow> None | PyStrList xs \<Rightarrow> Some TypeError)
      | ResidualParallelWaveGANDiscriminator a \<Rightarrow>
          (case res_layers a of PyInt n \<Rightarrow> None | PyStrList xs \<Rightarrow> Some TypeError)
      | _ \<Rightarrow> None)"

definition sample_env :: "string env" where
  "sample_env =
     \<lparr>cuda_is_available = True,
      load_yaml = (\<lambda>p. Inr sample_conf),
      open_scpdir = (\<lambda>p. Inr \<lparr>spkrs = [''SF1'', ''SM1'', ''TF1'', ''TM1''], feats = None\<rparr>),
      open_featsscp = (\<lambda>p. Inr ''feats''),
      joblib_load = (\<lambda>p. Inr ''scaler''),
      path_join = (\<lambda>p q. p @ ''/'' @ q),
      path_stem = (\<lambda>p. ''cyclegan''),
      glob = (\<lambda>p q. []),
      torch_load = (\<lambda>p. Inl (ExternalError ''FileNotFoundError'')),
      load_state_dict = (\<lambda>n p. n),
      discriminator_init = sample_init,
      receptive_sizes = (\<lambda>n. (64, 64)),
      raises = (\<lambda>ev. None)\<rparr>"

section \<open>Auxiliary facts\<close>

subsection \<open>Decimal digits and accumulator keys\<close>

lemma digit_inj: "a < 10 \<Longrightarrow> b < 10 \<Longrightarrow> digit a = digit b \<Longrightarrow> a = b"
proof -
  assume a: "a < 10" and b: "b < 10" and e: "digit a = digit b"
  have d: "distinct ''0123456789''" by simp
  have "length ''0123456789'' = 10" by simp
  with a b e d show ?thesis unfolding digit_def
    by (metis nth_eq_iff_index_eq)
qed

lemma digit_in: "a < 10 \<Longrightarrow> digit a \<in> set ''0123456789''"
  unfolding digit_def by (rule nth_mem) simp

lemma string_of_nat_digits: "set (string_of_nat n) \<subseteq> set ''0123456789''"
proof (induction n rule: string_of_nat.induct)
  case (1 n)
  show ?case
  proof (cases "n < 10")
    case True
    then show ?thesis using digit_in[of n] by (subst string_of_nat.simps) simp
  next
    case False
    have "n mod 10 < 10" by simp
    then have "digit (n mod 10) \<in> set ''0123456789''" by (rule digit_in)
    then show ?thesis using False 1
      by (subst string_of_nat.simps) simp
  qed
qed

lemma string_of_nat_nonempty: "string_of_nat n \<noteq> []"
  by (subst string_of_nat.simps) simp

lemma string_of_nat_inj: "string_of_nat n = string_of_nat m \<Longrightarrow> n = m"
proof (induction n arbitrary: m rule: string_of_nat.induct)
  case (1 n)
  show ?case
  proof (cases "n < 10")
    case n: True
    show ?thesis
    proof (cases "m < 10")
      case True
      with n 1(2) show ?thesis
        by (simp add: string_of_nat.simps[of n] string_of_nat.simps[of m] digit_inj)
    next
      case False
      with n 1(2) string_of_nat_nonempty[of "m div 10"] show ?thesis
        by (simp add: string_of_nat.simps[of n] string_of_nat.simps[of m])
    qed
  next
    case n: False
    show ?thesis
    proof (cases "m < 10")
      case True
      with n 1(2) string_of_nat_nonempty[of "n div 10"] show ?thesis
        by (simp add: string_of_nat.simps[of n] string_of_nat.simps[of m])
    next
      case False
      with n 1(2) have e: "string_of_nat (n div 10) = string_of_nat (m div 10)"
        and d: "digit (n mod 10) = digit (m mod 10)"
        by (simp_all add: string_of_nat.simps[of n] string_of_nat.simps[of m])
      from 1(1)[OF n e] have "n div 10 = m div 10" .
      moreover from d have "n mod 10 = m mod 10" by (intro digit_inj) simp_all
      ultimately show ?thesis by (metis div_mult_mod_eq)
    qed
  qed
qed

lemma split_at_sep:
  "x \<notin> set xs \<Longrightarrow> x \<notin> set ys \<Longrightarrow> xs @ x # r = ys @ x # r' \<Longrightarrow> xs = ys \<and> r = r'"
proof (induction xs arbitrary: ys)
  case Nil
  then show ?case by (cases ys) auto
next
  case (Cons a xs)
  then show ?case by (cases ys) auto
qed

lemma cyc_key_inj:
  assumes "string_of_nat c @ ''cyc'' @ r = string_of_nat c' @ ''cyc'' @ r'"
  shows "c = c' \<and> r = r'"
proof -
  have "CHR ''c'' \<notin> set (string_of_nat c)" "CHR ''c'' \<notin> set (string_of_nat c')"
    using string_of_nat_digits[of c] string_of_nat_digits[of c'] by auto
  moreover from assms have "string_of_nat c @ CHR ''c'' # (''yc'' @ r) = string_of_nat c' @ CHR ''c'' # (''yc'' @ r')"
    by simp
  ultimately have "string_of_nat c = string_of_nat c' \<and> ''yc'' @ r = ''yc'' @ r'"
    by (rule split_at_sep)
  then show ?thesis using string_of_nat_inj by auto
qed

lemma cyc_key_eq:
  "string_of_nat c @ CHR ''c'' # CHR ''y'' # CHR ''c'' # r = string_of_nat c' @ CHR ''c'' # CHR ''y'' # CHR ''c'' # r'
     \<longleftrightarrow> c = c' \<and> r = r'"
  using cyc_key_inj[of c r c' r'] by auto

lemma string_of_nat_0: "string_of_nat 0 = ''0''"
  by (simp add: string_of_nat.simps digit_def)

lemma string_of_nat_1: "string_of_nat (Suc 0) = ''1''"
  by (simp add: string_of_nat.simps digit_def)

lemma range_py_2: "range_py 2 = [0, Suc 0]"
  by (simp add: range_py_def upt_rec numeral_2_eq_2)

subsection \<open>Loops\<close>

lemma for_err_append:
  "for_err (xs @ ys) f s = bind_err (for_err xs f s) (for_err ys f)"
  by (induction xs arbitrary: s) (auto simp: bind_err_def split: sum.splits)

lemma for_err_rule:
  assumes "P [] s0"
    and "\<And>done x rest s. done @ x # rest = xs \<Longrightarrow> P done s \<Longrightarrow> \<exists>s'. body x s = Inr s' \<and> P (done @ [x]) s'"
  shows "\<exists>s'. for_err xs body s0 = Inr s' \<and> P xs s'"
proof -
  have "done @ ys = xs \<Longrightarrow> P done s \<Longrightarrow> \<exists>s'. for_err ys body s = Inr s' \<and> P xs s'" for ys "done" s
  proof (induction ys arbitrary: "done" s)
    case Nil
    then show ?case by simp
  next
    case (Cons y ys)
    from assms(2)[OF Cons.prems] obtain s1 where b: "body y s = Inr s1" and p: "P (done @ [y]) s1"
      by blast
    from Cons.prems(1) have "(done @ [y]) @ ys = xs" by simp
    from Cons.IH[OF this p] obtain s' where "for_err ys body s1 = Inr s'" "P xs s'" by blast
    with b show ?case by (simp add: bind_err_def)
  qed
  from this[of "[]" xs s0] assms(1) show ?thesis by simp
qed


section \<open>Properties of load_checkpoint\<close>

lemma load_roles_other: "r \<notin> set ms \<Longrightarrow> load_roles lsd sd mdl ms r = mdl r"
  by (induction ms arbitrary: mdl) (auto split: option.splits)

lemma load_roles_member:
  "distinct ms \<Longrightarrow> r \<in> set ms \<Longrightarrow>
   load_roles lsd sd mdl ms r =
     (case (state_dict.model sd r, mdl r) of (Some p, Some n) \<Rightarrow> Some (lsd n p) | _ \<Rightarrow> mdl r)"
proof (induction ms arbitrary: mdl)
  case Nil
  then show ?case by simp
next
  case (Cons m ms)
  show ?case
  proof (cases "r = m")
    case True
    with Cons.prems have "r \<notin> set ms" by simp
    then show ?thesis using True
      by (simp add: load_roles_other split: option.splits)
  next
    case False
    with Cons.prems have "r \<in> set ms" "distinct ms" by simp_all
    then show ?thesis using False Cons.IH
      by (simp split: option.splits)
  qed
qed

text \<open>
  C7, as the claim states it, fails: the role \<open>"G"\<close> is not skipped when it is missing.
  A checkpoint record that holds only \<open>"D"\<close> makes \<open>load_checkpoint\<close> raise
  \<open>KeyError("G")\<close>, although the collection has both \<open>"G"\<close> and \<open>"D"\<close>.
\<close>

theorem load_checkpoint_missing_G_raises:
  "load_checkpoint (\<lambda>f. Inr \<lparr>state_dict.model = [''D'' \<mapsto> (7::nat)], steps = 5\<rparr>) (\<lambda>n p. p)
     [''G'' \<mapsto> (0::nat), ''D'' \<mapsto> 0] ''checkpoint_5steps.pkl'' = Inl (KeyError ''G'')"
  by (simp add: load_checkpoint_def getitem_def)

text \<open>
  C7, amended: for every model collection and every checkpoint record read from the
  file, \<open>load_checkpoint\<close> raises \<open>KeyError("G")\<close> when \<open>"G"\<close> is missing from the
  collection or from the record; otherwise it loads \<open>"G"\<close>, loads each of \<open>"D"\<close>,
  \<open>"C"\<close>, \<open>"SPKRADV"\<close> exactly when the role is in both the collection and the record
  (a role missing from either side is skipped without failing), leaves every other role
  unchanged, and returns the record's \<open>"steps"\<close>.
\<close>

theorem load_checkpoint_roles:
  assumes "tload ck = Inr sd"
  shows "load_checkpoint tload lsd mdl ck =
     (if mdl ''G'' = None \<or> state_dict.model sd ''G'' = None then Inl (KeyError ''G'')
      else Inr (\<lambda>r. if r \<in> {''G'', ''D'', ''C'', ''SPKRADV''} then
                       (case (state_dict.model sd r, mdl r) of
                          (Some p, Some n) \<Rightarrow> Some (lsd n p)
                        | _ \<Rightarrow> mdl r)
                     else mdl r,
                steps sd))"
proof (cases "mdl ''G'' = None \<or> state_dict.model sd ''G'' = None")
  case True
  then show ?thesis using assms
    by (auto simp: load_checkpoint_def getitem_def split: option.splits)
next
  case False
  then obtain g p where g: "mdl ''G'' = Some g" and p: "state_dict.model sd ''G'' = Some p" by auto
  let ?m1 = "mdl(''G'' \<mapsto> lsd g p)"
  let ?spec = "\<lambda>r. if r \<in> {''G'', ''D'', ''C'', ''SPKRADV''} then
                       (case (state_dict.model sd r, mdl r) of
                          (Some p, Some n) \<Rightarrow> Some (lsd n p)
                        | _ \<Rightarrow> mdl r)
                     else mdl r"
  have "load_roles lsd sd ?m1 [''D'', ''C'', ''SPKRADV''] r = ?spec r" for r
  proof (cases "r \<in> set [''D'', ''C'', ''SPKRADV'']")
    case True
    then have ne: "r \<noteq> ''G''" by auto
    have "load_roles lsd sd ?m1 [''D'', ''C'', ''SPKRADV''] r =
       (case (state_dict.model sd r, ?m1 r) of (Some p, Some n) \<Rightarrow> Some (lsd n p) | _ \<Rightarrow> ?m1 r)"
      using True by (intro load_roles_member) simp_all
    also have "\<dots> = ?spec r"
      using True ne by (auto split: option.splits)
    finally show ?thesis .
  next
    case False
    then show ?thesis
      using load_roles_other[of r "[''D'', ''C'', ''SPKRADV'']" lsd sd ?m1] g p
      by auto
  qed
  then have "load_roles lsd sd ?m1 [''D'', ''C'', ''SPKRADV''] = ?spec" by (rule ext)
  then show ?thesis using assms g p False
    by (simp add: load_checkpoint_def getitem_def)
qed

theorem load_checkpoint_roles_witness:
  "case load_checkpoint
          (\<lambda>f. Inr \<lparr>state_dict.model = [''G'' \<mapsto> (1::nat), ''D'' \<mapsto> 2, ''C'' \<mapsto> 3, ''X'' \<mapsto> 4], steps = 5\<rparr>)
          (\<lambda>n p. p)
          [''G'' \<mapsto> (0::nat), ''D'' \<mapsto> 0, ''SPKRADV'' \<mapsto> 0, ''X'' \<mapsto> 0]
          ''checkpoint_5steps.pkl'' of
     Inl e \<Rightarrow> False
   | Inr (m, s) \<Rightarrow>
       m ''G'' = Some 1 \<and> m ''D'' = Some 2 \<and> m ''C'' = None \<and> m ''SPKRADV'' = Some 0
       \<and> m ''X'' = Some 0 \<and> s = 5"
  using load_checkpoint_roles
    [of "\<lambda>f. Inr \<lparr>state_dict.model = [''G'' \<mapsto> (1::nat), ''D'' \<mapsto> 2, ''C'' \<mapsto> 3, ''X'' \<mapsto> 4], steps = 5\<rparr>"
        "''checkpoint_5steps.pkl''"
        "\<lparr>state_dict.model = [''G'' \<mapsto> (1::nat), ''D'' \<mapsto> 2, ''C'' \<mapsto> 3, ''X'' \<mapsto> 4], steps = 5\<rparr>"
        "\<lambda>n p. p"
        "[''G'' \<mapsto> (0::nat), ''D'' \<mapsto> 0, ''SPKRADV'' \<mapsto> 0, ''X'' \<mapsto> 0]"]
  by simp

section \<open>Properties of get_model\<close>

text \<open>
  C8: for every configuration whose \<open>trainer_type\<close> is \<open>"lsgan"\<close>, \<open>"cyclegan"\<close> or
  \<open>"stargan"\<close> and whose \<open>gan_type\<close> is not \<open>"lsgan"\<close>, \<open>get_model\<close> reaches the
  construction of the discriminator with \<open>output_channels\<close> unbound and raises
  \<open>UnboundLocalError\<close> instead of returning a model collection, whatever the constructors
  of the discriminator classes do.
\<close>

theorem get_model_output_channels_unbound:
  assumes "trainer_type c \<in> {''lsgan'', ''cyclegan'', ''stargan''}"
    and "gan_type c \<noteq> ''lsgan''"
  shows "get_model init c spkr_size dev sc = Inl (UnboundLocalError ''output_channels'')"
  using assms by (simp add: get_model_def discriminator_call_def read_local_def Let_def)

theorem get_model_output_channels_unbound_witness:
  "trainer_type (sample_conf\<lparr>gan_type := ''wgan''\<rparr>) \<in> {''lsgan'', ''cyclegan'', ''stargan''}
   \<and> gan_type (sample_conf\<lparr>gan_type := ''wgan''\<rparr>) \<noteq> ''lsgan''
   \<and> get_model sample_init (sample_conf\<lparr>gan_type := ''wgan''\<rparr>) 4 ''cuda'' None
       = Inl (UnboundLocalError ''output_channels'')"
  using get_model_output_channels_unbound
    [of "sample_conf\<lparr>gan_type := ''wgan''\<rparr>" sample_init 4 "''cuda''" None]
  by (simp add: sample_conf_def)

text \<open>
  C9: in the branch of \<open>get_model\<close> for the non-residual discriminator
  (\<open>use_residual_network\<close> false, reached with \<open>output_channels\<close> bound), the
  constructor \<open>ParallelWaveGANDiscriminator\<close> is called with a \<open>layers\<close> argument that is
  the list repeating the string \<open>"n_discriminator_stacks"\<close> \<open>n_discriminator_layers\<close>
  times, not the integer product of the two configured counts. \<open>get_model\<close> raises what
  the constructor raises for this call, and has the network of this call under \<open>"D"\<close>
  only if the constructor returns.
\<close>

theorem get_model_layers_is_string_list:
  assumes "trainer_type c \<in> {''lsgan'', ''cyclegan'', ''stargan''}"
    and "gan_type c = ''lsgan''"
    and "\<not> use_residual_network c"
  shows "\<exists>args. discriminator_call c spkr_size = Inr (ParallelWaveGANDiscriminator args)
      \<and> layers args =
          PyStrList (replicate (nat (n_discriminator_layers c)) ''n_discriminator_stacks'')
      \<and> layers args \<noteq> PyInt (n_discriminator_layers c * n_discriminator_stacks c)
      \<and> (\<forall>e. init (ParallelWaveGANDiscriminator args) = Some e
              \<longrightarrow> get_model init c spkr_size dev sc = Inl e)
      \<and> (init (ParallelWaveGANDiscriminator args) = None
              \<longrightarrow> (\<exists>models. get_model init c spkr_size dev sc = Inr models
                    \<and> models ''D'' = Some (to (ParallelWaveGANDiscriminator args) dev)))"
proof -
  obtain args where d: "discriminator_call c spkr_size = Inr (ParallelWaveGANDiscriminator args)"
    and l: "layers args =
      PyStrList (replicate (nat (n_discriminator_layers c)) ''n_discriminator_stacks'')"
    using assms(2,3)
    by (cases "acgan_flag c")
       (simp_all add: discriminator_call_def read_local_def Let_def list_times_def)
  have r1: "get_model init c spkr_size dev sc = Inl e"
    if "init (ParallelWaveGANDiscriminator args) = Some e" for e
    using assms(1) d that by (simp add: get_model_def Let_def)
  have r2: "\<exists>models. get_model init c spkr_size dev sc = Inr models
      \<and> models ''D'' = Some (to (ParallelWaveGANDiscriminator args) dev)"
    if "init (ParallelWaveGANDiscriminator args) = None"
    using assms(1) d that by (simp add: get_model_def Let_def)
  from d l r1 r2 show ?thesis by (intro exI[of _ args]) simp
qed

theorem get_model_layers_is_string_list_witness:
  "trainer_type sample_conf \<in> {''lsgan'', ''cyclegan'', ''stargan''}
   \<and> gan_type sample_conf = ''lsgan'' \<and> \<not> use_residual_network sample_conf
   \<and> (\<exists>args. discriminator_call sample_conf 4 = Inr (ParallelWaveGANDiscriminator args)
      \<and> layers args = PyStrList [''n_discriminator_stacks'', ''n_discriminator_stacks'']
      \<and> sample_init (ParallelWaveGANDiscriminator args) = Some TypeError
      \<and> get_model sample_init sample_conf 4 ''cuda'' None = Inl TypeError)"
proof -
  have h: "trainer_type sample_conf \<in> {''lsgan'', ''cyclegan'', ''stargan''}"
    "gan_type sample_conf = ''lsgan''" "\<not> use_residual_network sample_conf"
    by (simp_all add: sample_conf_def)
  have n: "replicate (nat (n_discriminator_layers sample_conf)) ''n_discriminator_stacks''
      = [''n_discriminator_stacks'', ''n_discriminator_stacks'']"
    by (simp add: sample_conf_def numeral_2_eq_2)
  from get_model_layers_is_string_list [OF h, of 4 sample_init "''cuda''" None]
  obtain args where d: "discriminator_call sample_conf 4 = Inr (ParallelWaveGANDiscriminator args)"
    and l: "layers args = PyStrList [''n_discriminator_stacks'', ''n_discriminator_stacks'']"
    and r: "\<forall>e. sample_init (ParallelWaveGANDiscriminator args) = Some e
              \<longrightarrow> get_model sample_init sample_conf 4 ''cuda'' None = Inl e"
    unfolding n by blast
  from l have i: "sample_init (ParallelWaveGANDiscriminator args) = Some TypeError"
    by (simp add: sample_init_def)
  with r have "get_model sample_init sample_conf 4 ''cuda'' None = Inl TypeError" by blast
  with h d l i show ?thesis by blast
qed

section \<open>Properties of calculate_cycleadv_loss\<close>

lemma cycleadv_body_result:
  assumes D: "model tr ''D'' = Some D" and mse: "criterion tr ''mse'' = Some mse"
    and ce: "acgan_flag (conf tr) \<longrightarrow> criterion tr ''ce'' = Some ce"
    and len: "c < length outputs"
    and g: "l ''G'' = Some g"
    and Y: "Y = Transpose 1 2 (D (Transpose 1 2 (get_D_inputs tr b (decoded (branch (outputs ! c) io)) ''cv'')))"
    and X: "X = (if acgan_flag (conf tr) then MaskedSelect (SplitPart 0 [1, n_spkrs tr] 2 Y) msk else Y)"
    and cls: "cls = ce (ReshapeRows (SplitPart 1 [1, n_spkrs tr] 2 Y)) (Flatten (batch_h b io))"
    and lbl: "lbl = string_of_nat c @ ''cyc_'' @ io"
  shows "cycleadv_body tr b outputs msk c io l =
     Inr (if acgan_flag (conf tr) then
            l(''D_acgan_adv_'' @ lbl \<mapsto> cls, ''D_adv_'' @ lbl \<mapsto> mse X (OnesLike X),
              ''G'' \<mapsto> Add (Add g (Scale (alpha_acgan (alpha (conf tr))) cls))
                          (Scale (alpha_adv (alpha (conf tr))) (mse X (OnesLike X))))
          else l(''D_adv_'' @ lbl \<mapsto> mse X (OnesLike X),
                 ''G'' \<mapsto> Add g (Scale (alpha_adv (alpha (conf tr))) (mse X (OnesLike X)))))"
proof (cases "acgan_flag (conf tr)")
  case True
  with ce have ce': "criterion tr ''ce'' = Some ce" by simp
  show ?thesis using True D mse ce' len g
    unfolding cycleadv_body_def Y X cls lbl
    by (simp add: bind_err_def getitem_def list_get_def return_sample_def criterion_call_def
        loss_iadd_def Let_def fun_upd_twist)
next
  case False
  show ?thesis using False D mse len g
    unfolding cycleadv_body_def Y X cls lbl
    by (simp add: bind_err_def getitem_def list_get_def return_sample_def criterion_call_def
        loss_iadd_def Let_def)
qed

lemma calculate_cycleadv_loss_result:
  assumes D: "model tr ''D'' = Some D" and mse: "criterion tr ''mse'' = Some mse"
    and ce: "acgan_flag (conf tr) \<longrightarrow> criterion tr ''ce'' = Some ce"
    and len: "nat (n_cycles (conf tr)) \<le> length outputs"
    and ginit: "l ''G'' = Some ginit"
  shows
    "let n = nat (n_cycles (conf tr));
         acg = acgan_flag (conf tr);
         Y = (\<lambda>c io. Transpose 1 2 (D (Transpose 1 2
                (get_D_inputs tr b (decoded (branch (outputs ! c) io)) ''cv''))));
         X = (\<lambda>c io. if acg then MaskedSelect (SplitPart 0 [1, n_spkrs tr] 2 (Y c io)) (decoder_mask b)
                      else Y c io);
         adv = (\<lambda>c io. mse (X c io) (OnesLike (X c io)));
         cls = (\<lambda>c io. ce (ReshapeRows (SplitPart 1 [1, n_spkrs tr] 2 (Y c io)))
                           (Flatten (batch_h b io)));
         terms = (\<lambda>c io. (if acg then [Scale (alpha_acgan (alpha (conf tr))) (cls c io)] else [])
                          @ [Scale (alpha_adv (alpha (conf tr))) (adv c io)])
     in \<exists>l'. calculate_cycleadv_loss tr b outputs l = Inr l'
          \<and> (\<forall>c<n. \<forall>io\<in>{''org'', ''cv''}.
                l' (''D_adv_'' @ string_of_nat c @ ''cyc_'' @ io) = Some (adv c io))
          \<and> (acg \<longrightarrow> (\<forall>c<n. \<forall>io\<in>{''org'', ''cv''}.
                l' (''D_acgan_adv_'' @ string_of_nat c @ ''cyc_'' @ io) = Some (cls c io)))
          \<and> l' ''G'' = Some (foldl Add ginit (concat (map (\<lambda>c. terms c ''org'' @ terms c ''cv'') [0..<n])))
          \<and> (\<forall>k. k \<noteq> ''G'' \<longrightarrow>
                (\<forall>c<n. \<forall>io\<in>{''org'', ''cv''}.
                    k \<noteq> ''D_adv_'' @ string_of_nat c @ ''cyc_'' @ io
                    \<and> (acg \<longrightarrow> k \<noteq> ''D_acgan_adv_'' @ string_of_nat c @ ''cyc_'' @ io))
                \<longrightarrow> l' k = l k)"
proof -
  define n where "n = nat (n_cycles (conf tr))"
  define acg where "acg = acgan_flag (conf tr)"
  define Y where "Y = (\<lambda>c io. Transpose 1 2 (D (Transpose 1 2
                (get_D_inputs tr b (decoded (branch (outputs ! c) io)) ''cv''))))"
  define X where "X = (\<lambda>c io. if acg then MaskedSelect (SplitPart 0 [1, n_spkrs tr] 2 (Y c io)) (decoder_mask b)
                      else Y c io)"
  define adv where "adv = (\<lambda>c io. mse (X c io) (OnesLike (X c io)))"
  define cls where "cls = (\<lambda>c io. ce (ReshapeRows (SplitPart 1 [1, n_spkrs tr] 2 (Y c io)))
                           (Flatten (batch_h b io)))"
  define aa where "aa = alpha_acgan (alpha (conf tr))"
  define ad where "ad = alpha_adv (alpha (conf tr))"
  define terms where "terms = (\<lambda>c io. (if acg then [Scale aa (cls c io)] else [])
                          @ [Scale ad (adv c io)])"
  define advk where "advk = (\<lambda>c io. ''D_adv_'' @ string_of_nat c @ ''cyc_'' @ io)"
  define ack where "ack = (\<lambda>c io. ''D_acgan_adv_'' @ string_of_nat c @ ''cyc_'' @ io)"
  define upd where "upd = (\<lambda>c io (l::loss) g.
       if acg then l(ack c io \<mapsto> cls c io, advk c io \<mapsto> adv c io,
                     ''G'' \<mapsto> Add (Add g (Scale aa (cls c io))) (Scale ad (adv c io)))
       else l(advk c io \<mapsto> adv c io, ''G'' \<mapsto> Add g (Scale ad (adv c io))))"
  define P where "P = (\<lambda>done (l'::loss).
       l' ''G'' = Some (foldl Add ginit (concat (map (\<lambda>c. terms c ''org'' @ terms c ''cv'') done)))
     \<and> (\<forall>c\<in>set done. \<forall>io\<in>{''org'', ''cv''}. l' (advk c io) = Some (adv c io))
     \<and> (acg \<longrightarrow> (\<forall>c\<in>set done. \<forall>io\<in>{''org'', ''cv''}. l' (ack c io) = Some (cls c io)))
     \<and> (\<forall>k. k \<noteq> ''G'' \<longrightarrow> (\<forall>c\<in>set done. \<forall>io\<in>{''org'', ''cv''}. k \<noteq> advk c io \<and> (acg \<longrightarrow> k \<noteq> ack c io))
            \<longrightarrow> l' k = l k))"
  have body: "cycleadv_body tr b outputs (decoder_mask b) c io l1 = Inr (upd c io l1 g)"
    if "c < length outputs" "l1 ''G'' = Some g" for c io l1 g
    using cycleadv_body_result[where tr=tr and D=D and mse=mse and ce=ce and c=c
        and outputs=outputs and l=l1 and g=g and b=b and io=io and msk="decoder_mask b"
        and Y="Y c io" and X="X c io" and cls="cls c io"
        and lbl="string_of_nat c @ ''cyc_'' @ io", OF D mse ce that(1) that(2)]
    unfolding upd_def acg_def aa_def ad_def adv_def cls_def X_def Y_def advk_def ack_def
    by simp
  have kG: "advk c io \<noteq> ''G''" "ack c io \<noteq> ''G''" "advk c io \<noteq> ack c' io'" for c io c' io'
    by (simp_all add: advk_def ack_def)
  have kinj: "advk c io = advk c' io' \<longleftrightarrow> c = c' \<and> io = io'"
       "ack c io = ack c' io' \<longleftrightarrow> c = c' \<and> io = io'" for c io c' io'
    by (simp_all add: advk_def ack_def cyc_key_eq)
  have step: "\<exists>s'. for_err [''org'', ''cv''] (cycleadv_body tr b outputs (decoder_mask b) x) s = Inr s'
              \<and> P (done @ [x]) s'"
    if dx: "done @ x # rest = [0..<n]" and p: "P done s" for "done" x rest s
  proof -
    have "x \<in> set [0..<n]" by (subst dx[symmetric]) simp
    then have xl: "x < length outputs" using len n_def by simp
    have "distinct (done @ x # rest)" by (subst dx) simp
    then have xnd: "x \<notin> set done" by simp
    define g where "g = foldl Add ginit (concat (map (\<lambda>c. terms c ''org'' @ terms c ''cv'') done))"
    from p have sG: "s ''G'' = Some g" by (simp add: P_def g_def)
    define g1 where "g1 = foldl Add g (terms x ''org'')"
    define s1 where "s1 = upd x ''org'' s g"
    have s1G: "s1 ''G'' = Some g1"
      by (simp add: s1_def upd_def g1_def terms_def)
    define s2 where "s2 = upd x ''cv'' s1 g1"
    have run: "for_err [''org'', ''cv''] (cycleadv_body tr b outputs (decoder_mask b) x) s = Inr s2"
      using body[of x s g "''org''", OF xl sG] body[of x s1 g1 "''cv''", OF xl s1G]
      by (simp add: bind_err_def s1_def s2_def)
    have c1: "s2 ''G'' = Some (foldl Add ginit (concat (map (\<lambda>c. terms c ''org'' @ terms c ''cv'') (done @ [x]))))"
      by (simp add: s2_def upd_def g1_def g_def terms_def)
    have c2: "s2 (advk c io) = Some (adv c io)" if "c \<in> set (done @ [x])" "io \<in> {''org'', ''cv''}" for c io
    proof (cases "c = x")
      case True
      with that(2) show ?thesis
        by (auto simp: s2_def s1_def upd_def kG kinj)
    next
      case False
      with that have cd: "c \<in> set done" by simp
      with p that(2) have "s (advk c io) = Some (adv c io)" unfolding P_def by blast
      with False show ?thesis
        by (simp add: s2_def s1_def upd_def kG kinj)
    qed
    have c2b: "s2 (ack c io) = Some (cls c io)" if "acg" "c \<in> set (done @ [x])" "io \<in> {''org'', ''cv''}" for c io
    proof (cases "c = x")
      case True
      with that(1,3) show ?thesis
        by (auto simp: s2_def s1_def upd_def kG kG[symmetric] kinj)
    next
      case False
      with that have cd: "c \<in> set done" by simp
      with p that(1,3) have "s (ack c io) = Some (cls c io)" unfolding P_def by blast
      with False that(1) show ?thesis
        by (simp add: s2_def s1_def upd_def kG kG[symmetric] kinj)
    qed
    have c3: "s2 k = l k" if "k \<noteq> ''G''"
       "\<forall>c\<in>set (done @ [x]). \<forall>io\<in>{''org'', ''cv''}. k \<noteq> advk c io \<and> (acg \<longrightarrow> k \<noteq> ack c io)" for k
    proof -
      from that(2) have "\<forall>c\<in>set done. \<forall>io\<in>{''org'', ''cv''}. k \<noteq> advk c io \<and> (acg \<longrightarrow> k \<noteq> ack c io)"
        by simp
      with p that(1) have "s k = l k" unfolding P_def by blast
      moreover from that(2) have "k \<noteq> advk x ''org''" "k \<noteq> advk x ''cv''"
        "acg \<longrightarrow> k \<noteq> ack x ''org''" "acg \<longrightarrow> k \<noteq> ack x ''cv''" by simp_all
      ultimately show ?thesis using that(1)
        by (simp add: s2_def s1_def upd_def)
    qed
    from c1 c2 c2b c3 have "P (done @ [x]) s2" unfolding P_def by blast
    with run show ?thesis by blast
  qed
  have Pinit: "P [] l" using ginit by (simp add: P_def)
  have "\<exists>l'. for_err [0..<n] (\<lambda>c. for_err [''org'', ''cv''] (cycleadv_body tr b outputs (decoder_mask b) c)) l = Inr l'
          \<and> P [0..<n] l'"
  proof (rule for_err_rule[where P=P])
    show "P [] l" by (rule Pinit)
  next
    fix dn x rest s
    assume "dn @ x # rest = [0..<n]" "P dn s"
    then show "\<exists>s'. for_err [''org'', ''cv''] (cycleadv_body tr b outputs (decoder_mask b) x) s = Inr s'
        \<and> P (dn @ [x]) s'"
      by (rule step)
  qed
  then obtain l' where run: "calculate_cycleadv_loss tr b outputs l = Inr l'" and p: "P [0..<n] l'"
    unfolding calculate_cycleadv_loss_def range_py_def n_def Let_def by blast
  have sn: "set [0..<n] = {c. c < n}" by auto
  have r1: "\<forall>c<n. \<forall>io\<in>{''org'', ''cv''}. l' (advk c io) = Some (adv c io)"
    using p by (simp add: P_def)
  have r1b: "acg \<longrightarrow> (\<forall>c<n. \<forall>io\<in>{''org'', ''cv''}. l' (ack c io) = Some (cls c io))"
    using p by (simp add: P_def)
  have r2: "l' ''G'' = Some (foldl Add ginit (concat (map (\<lambda>c. terms c ''org'' @ terms c ''cv'') [0..<n])))"
    using p by (simp add: P_def)
  have r3: "\<forall>k. k \<noteq> ''G'' \<longrightarrow>
                (\<forall>c<n. \<forall>io\<in>{''org'', ''cv''}. k \<noteq> advk c io \<and> (acg \<longrightarrow> k \<noteq> ack c io))
                \<longrightarrow> l' k = l k"
    using p unfolding P_def sn by blast
  show ?thesis
    unfolding Let_def
    using run r1 r1b r2 r3
    unfolding n_def acg_def adv_def X_def Y_def terms_def cls_def aa_def ad_def advk_def ack_def
    by blast
qed

text \<open>
  C1, as the claim states it, fails on the names of the accumulator keys. With two cycles
  and \<open>acgan_flag\<close> false the method writes no key \<open>"0cyc_org_D_adv"\<close>; the adversarial
  term of cycle 0, branch \<open>"org"\<close> is stored under \<open>"D_adv_0cyc_org"\<close>.
\<close>

theorem calculate_cycleadv_loss_key_names_counterexample:
  "\<not> isl (calculate_cycleadv_loss sample_trainer sample_batch sample_outputs sample_loss)
   \<and> projr (calculate_cycleadv_loss sample_trainer sample_batch sample_outputs sample_loss)
        ''0cyc_org_D_adv'' = None
   \<and> projr (calculate_cycleadv_loss sample_trainer sample_batch sample_outputs sample_loss)
        ''D_adv_0cyc_org'' \<noteq> None"
  by (simp add: calculate_cycleadv_loss_def cycleadv_body_def sample_trainer_def sample_conf_def
      sample_batch_def sample_outputs_def sample_loss_def range_py_2 bind_err_def getitem_def
      list_get_def return_sample_def criterion_call_def loss_iadd_def branch_def
      string_of_nat.simps digit_def Let_def)

text \<open>
  C1, amended: for every batch, every cycle \<open>c < n_cycles\<close> and each branch \<open>io\<close> of
  \<open>"org"\<close>, \<open>"cv"\<close>, \<open>calculate_cycleadv_loss\<close> (the adversarial part of \<open>update_G\<close>)
  runs the discriminator on the decoded output of cycle \<open>c\<close>, branch \<open>io\<close>, prepared by
  \<open>get_D_inputs\<close> with the label \<open>"cv"\<close> for both branches, stores the \<open>"mse"\<close>
  criterion of the discriminator output against \<open>ones_like\<close> of it under the key
  \<open>"D_adv_{c}cyc_{io}"\<close>, and adds it to the \<open>"G"\<close> total weighted by \<open>alpha["adv"]\<close>.
  With two cycles and \<open>acgan_flag\<close> false the keys written besides \<open>"G"\<close> are exactly
  \<open>"D_adv_0cyc_org"\<close>, \<open>"D_adv_0cyc_cv"\<close>, \<open>"D_adv_1cyc_org"\<close>, \<open>"D_adv_1cyc_cv"\<close>,
  so no key of the auxiliary classifier is written. The method returns when
  \<open>self.model\<close> has \<open>"D"\<close>, the criterion has \<open>"mse"\<close> (and \<open>"ce"\<close> under
  \<open>acgan_flag\<close>), there is an output for every cycle and the accumulator has \<open>"G"\<close>.
\<close>

theorem calculate_cycleadv_loss_terms:
  assumes D: "model tr ''D'' = Some D" and mse: "criterion tr ''mse'' = Some mse"
    and ce: "acgan_flag (conf tr) \<longrightarrow> criterion tr ''ce'' = Some ce"
    and len: "nat (n_cycles (conf tr)) \<le> length outputs"
    and g: "l ''G'' = Some ginit"
  shows
    "let n = nat (n_cycles (conf tr));
         acg = acgan_flag (conf tr);
         Y = (\<lambda>c io. Transpose 1 2 (D (Transpose 1 2
                (get_D_inputs tr b (decoded (branch (outputs ! c) io)) ''cv''))));
         X = (\<lambda>c io. if acg then MaskedSelect (SplitPart 0 [1, n_spkrs tr] 2 (Y c io)) (decoder_mask b)
                      else Y c io);
         adv = (\<lambda>c io. mse (X c io) (OnesLike (X c io)));
         cls = (\<lambda>c io. ce (ReshapeRows (SplitPart 1 [1, n_spkrs tr] 2 (Y c io)))
                           (Flatten (batch_h b io)));
         terms = (\<lambda>c io. (if acg then [Scale (alpha_acgan (alpha (conf tr))) (cls c io)] else [])
                          @ [Scale (alpha_adv (alpha (conf tr))) (adv c io)])
     in \<exists>l'. calculate_cycleadv_loss tr b outputs l = Inr l'
          \<and> (\<forall>c<n. \<forall>io\<in>{''org'', ''cv''}.
                l' (''D_adv_'' @ string_of_nat c @ ''cyc_'' @ io) = Some (adv c io))
          \<and> l' ''G'' = Some (foldl Add ginit (concat (map (\<lambda>c. terms c ''org'' @ terms c ''cv'') [0..<n])))
          \<and> (n = 2 \<and> \<not> acg \<longrightarrow>
               dom l' = dom l \<union> {''D_adv_0cyc_org'', ''D_adv_0cyc_cv'',
                                  ''D_adv_1cyc_org'', ''D_adv_1cyc_cv''})"
proof -
  define n where "n = nat (n_cycles (conf tr))"
  define acg where "acg = acgan_flag (conf tr)"
  define Y where "Y = (\<lambda>c io. Transpose 1 2 (D (Transpose 1 2
                (get_D_inputs tr b (decoded (branch (outputs ! c) io)) ''cv''))))"
  define X where "X = (\<lambda>c io. if acg then MaskedSelect (SplitPart 0 [1, n_spkrs tr] 2 (Y c io)) (decoder_mask b)
                      else Y c io)"
  define adv where "adv = (\<lambda>c io. mse (X c io) (OnesLike (X c io)))"
  define cls where "cls = (\<lambda>c io. ce (ReshapeRows (SplitPart 1 [1, n_spkrs tr] 2 (Y c io)))
                           (Flatten (batch_h b io)))"
  define terms where "terms = (\<lambda>c io. (if acg then [Scale (alpha_acgan (alpha (conf tr))) (cls c io)] else [])
                          @ [Scale (alpha_adv (alpha (conf tr))) (adv c io)])"
  define advk where "advk = (\<lambda>c io. ''D_adv_'' @ string_of_nat c @ ''cyc_'' @ io)"
  define ack where "ack = (\<lambda>c io. ''D_acgan_adv_'' @ string_of_nat c @ ''cyc_'' @ io)"
  have "\<exists>l'. calculate_cycleadv_loss tr b outputs l = Inr l'
          \<and> (\<forall>c<n. \<forall>io\<in>{''org'', ''cv''}. l' (advk c io) = Some (adv c io))
          \<and> (acg \<longrightarrow> (\<forall>c<n. \<forall>io\<in>{''org'', ''cv''}. l' (ack c io) = Some (cls c io)))
          \<and> l' ''G'' = Some (foldl Add ginit (concat (map (\<lambda>c. terms c ''org'' @ terms c ''cv'') [0..<n])))
          \<and> (\<forall>k. k \<noteq> ''G'' \<longrightarrow>
                (\<forall>c<n. \<forall>io\<in>{''org'', ''cv''}. k \<noteq> advk c io \<and> (acg \<longrightarrow> k \<noteq> ack c io))
                \<longrightarrow> l' k = l k)"
    unfolding n_def acg_def adv_def X_def Y_def terms_def cls_def advk_def ack_def
    by (rule calculate_cycleadv_loss_result[where tr=tr and D=D and mse=mse and ce=ce
      and outputs=outputs and l=l and ginit=ginit and b=b, OF D mse ce len g, unfolded Let_def])
  then obtain l' where run: "calculate_cycleadv_loss tr b outputs l = Inr l'"
    and r1: "\<forall>c<n. \<forall>io\<in>{''org'', ''cv''}. l' (advk c io) = Some (adv c io)"
    and r2: "l' ''G'' = Some (foldl Add ginit (concat (map (\<lambda>c. terms c ''org'' @ terms c ''cv'') [0..<n])))"
    and r3: "\<forall>k. k \<noteq> ''G'' \<longrightarrow>
                (\<forall>c<n. \<forall>io\<in>{''org'', ''cv''}. k \<noteq> advk c io \<and> (acg \<longrightarrow> k \<noteq> ack c io))
                \<longrightarrow> l' k = l k"
    by (elim exE conjE)
  have r4: "dom l' = dom l \<union> {''D_adv_0cyc_org'', ''D_adv_0cyc_cv'', ''D_adv_1cyc_org'', ''D_adv_1cyc_cv''}"
    if n2: "n = 2" and na: "\<not> acg"
  proof -
    have lt2: "c < n \<longleftrightarrow> c = 0 \<or> c = Suc 0" for c using n2 by auto
    have keys: "advk 0 ''org'' = ''D_adv_0cyc_org''" "advk 0 ''cv'' = ''D_adv_0cyc_cv''"
      "advk (Suc 0) ''org'' = ''D_adv_1cyc_org''" "advk (Suc 0) ''cv'' = ''D_adv_1cyc_cv''"
      by (simp_all add: advk_def string_of_nat_0 string_of_nat_1)
    have a: "l' (advk c io) \<noteq> None" if "c = 0 \<or> c = Suc 0" "io \<in> {''org'', ''cv''}" for c io
      using r1 that lt2[of c] by auto
    have w: "l' k \<noteq> None" if "k \<in> {''D_adv_0cyc_org'', ''D_adv_0cyc_cv'', ''D_adv_1cyc_org'', ''D_adv_1cyc_cv''}" for k
      using that a[of 0 "''org''"] a[of 0 "''cv''"] a[of "Suc 0" "''org''"] a[of "Suc 0" "''cv''"]
      unfolding keys by auto
    have f: "l' k = l k" if "k \<notin> {''D_adv_0cyc_org'', ''D_adv_0cyc_cv'', ''D_adv_1cyc_org'', ''D_adv_1cyc_cv''}" "k \<noteq> ''G''" for k
    proof -
      have "\<forall>c<n. \<forall>io\<in>{''org'', ''cv''}. k \<noteq> advk c io \<and> (acg \<longrightarrow> k \<noteq> ack c io)"
        unfolding lt2 using that(1) na keys by auto
      with r3 that(2) show ?thesis by blast
    qed
    have G: "l' ''G'' \<noteq> None" "l ''G'' \<noteq> None" using r2 g by simp_all
    show ?thesis
    proof (rule set_eqI)
      fix k
      show "k \<in> dom l' \<longleftrightarrow> k \<in> dom l \<union> {''D_adv_0cyc_org'', ''D_adv_0cyc_cv'', ''D_adv_1cyc_org'', ''D_adv_1cyc_cv''}"
      proof (cases "k \<in> {''D_adv_0cyc_org'', ''D_adv_0cyc_cv'', ''D_adv_1cyc_org'', ''D_adv_1cyc_cv''}")
        case True
        with w[OF True] show ?thesis by (auto simp: dom_def)
      next
        case False
        show ?thesis
        proof (cases "k = ''G''")
          case True
          with G show ?thesis by (auto simp: dom_def)
        next
          case kg: False
          from f[OF False kg] False show ?thesis by (auto simp: dom_def)
        qed
      qed
    qed
  qed
  show ?thesis
    unfolding Let_def
    using run r1 r2 r4
    unfolding n_def acg_def adv_def X_def Y_def terms_def cls_def advk_def
    by blast
qed

theorem calculate_cycleadv_loss_terms_witness:
  "model sample_trainer ''D'' = Some (\<lambda>x. Op ''D'' [x])
   \<and> criterion sample_trainer ''mse'' = Some (\<lambda>x y. Op ''mse'' [x, y])
   \<and> nat (n_cycles (conf sample_trainer)) \<le> length sample_outputs
   \<and> sample_loss ''G'' = Some (Const 0)
   \<and> (\<exists>l'. calculate_cycleadv_loss sample_trainer sample_batch sample_outputs sample_loss = Inr l'
        \<and> l' ''D_adv_1cyc_cv'' =
            Some (Op ''mse''
              [Transpose 1 2 (Op ''D'' [Transpose 1 2 (Op ''get_D_inputs_cv'' [Input ''decoded_1_cv''])]),
               OnesLike (Transpose 1 2 (Op ''D'' [Transpose 1 2 (Op ''get_D_inputs_cv'' [Input ''decoded_1_cv''])]))])
        \<and> dom l' = {''G'', ''D'', ''D_adv_0cyc_org'', ''D_adv_0cyc_cv'', ''D_adv_1cyc_org'', ''D_adv_1cyc_cv''})"
proof -
  have h1: "model sample_trainer ''D'' = Some (\<lambda>x. Op ''D'' [x])"
    and h2: "criterion sample_trainer ''mse'' = Some (\<lambda>x y. Op ''mse'' [x, y])"
    and h3: "acgan_flag (conf sample_trainer) \<longrightarrow> criterion sample_trainer ''ce'' = Some (\<lambda>x y. Op ''ce'' [x, y])"
    and h4: "nat (n_cycles (conf sample_trainer)) \<le> length sample_outputs"
    and h5: "sample_loss ''G'' = Some (Const 0)"
    by (simp_all add: sample_trainer_def sample_conf_def sample_outputs_def sample_loss_def)
  have n: "nat (n_cycles (conf sample_trainer)) = 2" "\<not> acgan_flag (conf sample_trainer)"
    by (simp_all add: sample_trainer_def sample_conf_def)
  define Yw where "Yw = (\<lambda>c io. Transpose 1 2 (Op ''D'' [Transpose 1 2
      (get_D_inputs sample_trainer sample_batch (decoded (branch (sample_outputs ! c) io)) ''cv'')]))"
  note t = calculate_cycleadv_loss_terms[where tr=sample_trainer and D="\<lambda>x. Op ''D'' [x]"
      and mse="\<lambda>x y. Op ''mse'' [x, y]" and ce="\<lambda>x y. Op ''ce'' [x, y]"
      and outputs=sample_outputs and l=sample_loss and ginit="Const 0" and b=sample_batch,
      OF h1 h2 h3 h4 h5, unfolded Let_def n(1)]
  have "\<exists>l'. calculate_cycleadv_loss sample_trainer sample_batch sample_outputs sample_loss = Inr l'
      \<and> (\<forall>c<2. \<forall>io\<in>{''org'', ''cv''}.
            l' (''D_adv_'' @ string_of_nat c @ ''cyc_'' @ io) = Some (Op ''mse'' [Yw c io, OnesLike (Yw c io)]))
      \<and> dom l' = dom sample_loss \<union> {''D_adv_0cyc_org'', ''D_adv_0cyc_cv'', ''D_adv_1cyc_org'', ''D_adv_1cyc_cv''}"
    using t unfolding Yw_def
    by (simp only: n(2) if_False simp_thms) blast
  then obtain l' where r: "calculate_cycleadv_loss sample_trainer sample_batch sample_outputs sample_loss = Inr l'"
    and a: "\<forall>c<2. \<forall>io\<in>{''org'', ''cv''}.
            l' (''D_adv_'' @ string_of_nat c @ ''cyc_'' @ io) = Some (Op ''mse'' [Yw c io, OnesLike (Yw c io)])"
    and d: "dom l' = dom sample_loss \<union> {''D_adv_0cyc_org'', ''D_adv_0cyc_cv'', ''D_adv_1cyc_org'', ''D_adv_1cyc_cv''}"
    by blast
  from a have "l' (''D_adv_'' @ string_of_nat (Suc 0) @ ''cyc_'' @ ''cv'') =
      Some (Op ''mse'' [Yw (Suc 0) ''cv'', OnesLike (Yw (Suc 0) ''cv'')])"
    by simp
  then have v: "l' ''D_adv_1cyc_cv'' =
            Some (Op ''mse''
              [Transpose 1 2 (Op ''D'' [Transpose 1 2 (Op ''get_D_inputs_cv'' [Input ''decoded_1_cv''])]),
               OnesLike (Transpose 1 2 (Op ''D'' [Transpose 1 2 (Op ''get_D_inputs_cv'' [Input ''decoded_1_cv''])]))])"
    by (simp add: Yw_def string_of_nat_1 sample_trainer_def sample_outputs_def branch_def)
  have "dom sample_loss = {''G'', ''D''}" by (auto simp: sample_loss_def)
  with d have "dom l' = {''G'', ''D'', ''D_adv_0cyc_org'', ''D_adv_0cyc_cv'', ''D_adv_1cyc_org'', ''D_adv_1cyc_cv''}"
    by auto
  with r v h1 h2 h4 h5 show ?thesis by blast
qed

text \<open>
  C3, as the claim states it, fails for the classification loss. With \<open>acgan_flag\<close>
  true, the cross-entropy stored under \<open>"D_acgan_adv_0cyc_org"\<close> is the criterion of the
  whole classification channel and of \<open>org_h\<close>: no \<open>masked_select\<close> is applied to either
  and \<open>decoder_mask\<close> is not among the inputs it is computed from, so the frames of the
  padding contribute to it.
\<close>

theorem calculate_cycleadv_loss_ce_unmasked_counterexample:
  "\<not> isl (calculate_cycleadv_loss (sample_trainer\<lparr>conf := sample_conf\<lparr>acgan_flag := True\<rparr>\<rparr>)
            sample_batch sample_outputs sample_loss)
   \<and> projr (calculate_cycleadv_loss (sample_trainer\<lparr>conf := sample_conf\<lparr>acgan_flag := True\<rparr>\<rparr>)
            sample_batch sample_outputs sample_loss) ''D_acgan_adv_0cyc_org'' =
       Some (Op ''ce''
         [ReshapeRows (SplitPart 1 [1, 4] 2
            (Transpose 1 2 (Op ''D'' [Transpose 1 2 (Op ''get_D_inputs_cv'' [Input ''decoded_0_org''])]))),
          Flatten (Input ''org_h'')])
   \<and> map_option inputs
        (projr (calculate_cycleadv_loss (sample_trainer\<lparr>conf := sample_conf\<lparr>acgan_flag := True\<rparr>\<rparr>)
            sample_batch sample_outputs sample_loss) ''D_acgan_adv_0cyc_org'') =
       Some [''decoded_0_org'', ''org_h'']"
  by (simp add: calculate_cycleadv_loss_def cycleadv_body_def sample_trainer_def sample_conf_def
      sample_batch_def sample_outputs_def sample_loss_def range_py_2 bind_err_def getitem_def
      list_get_def return_sample_def criterion_call_def loss_iadd_def branch_def batch_h_def
      string_of_nat.simps digit_def Let_def)

text \<open>
  C3, amended: when \<open>acgan_flag\<close> is enabled, for every batch, every cycle and every
  branch, the adversarial squared-error loss of \<open>update_G\<close> is the \<open>"mse"\<close> criterion of
  the validity channel of the discriminator output after \<open>masked_select\<close> with
  \<open>decoder_mask\<close>, against \<open>ones_like\<close> of the selected elements; the classification
  cross-entropy is the \<open>"ce"\<close> criterion of the whole classification channel and the
  whole speaker-label sequence of the branch, with no mask.
\<close>

theorem calculate_cycleadv_loss_masking:
  assumes acg: "acgan_flag (conf tr)"
    and D: "model tr ''D'' = Some D" and mse: "criterion tr ''mse'' = Some mse"
    and ce: "criterion tr ''ce'' = Some ce"
    and len: "nat (n_cycles (conf tr)) \<le> length outputs"
    and g: "l ''G'' = Some ginit"
  shows
    "\<exists>l'. calculate_cycleadv_loss tr b outputs l = Inr l'
       \<and> (\<forall>c<nat (n_cycles (conf tr)). \<forall>io\<in>{''org'', ''cv''}.
            let Y = Transpose 1 2 (D (Transpose 1 2
                      (get_D_inputs tr b (decoded (branch (outputs ! c) io)) ''cv'')));
                valid = MaskedSelect (SplitPart 0 [1, n_spkrs tr] 2 Y) (decoder_mask b);
                spkr_cls = SplitPart 1 [1, n_spkrs tr] 2 Y
            in l' (''D_adv_'' @ string_of_nat c @ ''cyc_'' @ io) = Some (mse valid (OnesLike valid))
             \<and> l' (''D_acgan_adv_'' @ string_of_nat c @ ''cyc_'' @ io) =
                 Some (ce (ReshapeRows spkr_cls) (Flatten (batch_h b io))))"
proof -
  have ce': "acgan_flag (conf tr) \<longrightarrow> criterion tr ''ce'' = Some ce" using ce by simp
  note t = calculate_cycleadv_loss_result[where tr=tr and D=D and mse=mse and ce=ce
      and outputs=outputs and l=l and ginit=ginit and b=b, OF D mse ce' len g, unfolded Let_def]
  then obtain l' where run: "calculate_cycleadv_loss tr b outputs l = Inr l'"
    and r1: "\<forall>c<nat (n_cycles (conf tr)). \<forall>io\<in>{''org'', ''cv''}.
       l' (''D_adv_'' @ string_of_nat c @ ''cyc_'' @ io) =
       Some (mse (if acgan_flag (conf tr)
                  then MaskedSelect (SplitPart 0 [1, n_spkrs tr] 2
                         (Transpose 1 2 (D (Transpose 1 2 (get_D_inputs tr b (decoded (branch (outputs ! c) io)) ''cv'')))))
                         (decoder_mask b)
                  else Transpose 1 2 (D (Transpose 1 2 (get_D_inputs tr b (decoded (branch (outputs ! c) io)) ''cv''))))
         (OnesLike (if acgan_flag (conf tr)
                  then MaskedSelect (SplitPart 0 [1, n_spkrs tr] 2
                         (Transpose 1 2 (D (Transpose 1 2 (get_D_inputs tr b (decoded (branch (outputs ! c) io)) ''cv'')))))
                         (decoder_mask b)
                  else Transpose 1 2 (D (Transpose 1 2 (get_D_inputs tr b (decoded (branch (outputs ! c) io)) ''cv''))))))"
    and r2: "acgan_flag (conf tr) \<longrightarrow> (\<forall>c<nat (n_cycles (conf tr)). \<forall>io\<in>{''org'', ''cv''}.
       l' (''D_acgan_adv_'' @ string_of_nat c @ ''cyc_'' @ io) =
       Some (ce (ReshapeRows (SplitPart 1 [1, n_spkrs tr] 2
                   (Transpose 1 2 (D (Transpose 1 2 (get_D_inputs tr b (decoded (branch (outputs ! c) io)) ''cv''))))))
                (Flatten (batch_h b io))))"
    by (elim exE conjE)
  from r1 r2 acg have "\<forall>c<nat (n_cycles (conf tr)). \<forall>io\<in>{''org'', ''cv''}.
            let Y = Transpose 1 2 (D (Transpose 1 2
                      (get_D_inputs tr b (decoded (branch (outputs ! c) io)) ''cv'')));
                valid = MaskedSelect (SplitPart 0 [1, n_spkrs tr] 2 Y) (decoder_mask b);
                spkr_cls = SplitPart 1 [1, n_spkrs tr] 2 Y
            in l' (''D_adv_'' @ string_of_nat c @ ''cyc_'' @ io) = Some (mse valid (OnesLike valid))
             \<and> l' (''D_acgan_adv_'' @ string_of_nat c @ ''cyc_'' @ io) =
                 Some (ce (ReshapeRows spkr_cls) (Flatten (batch_h b io)))"
    unfolding Let_def by (simp only: if_True simp_thms) blast
  with run show ?thesis by blast
qed

theorem calculate_cycleadv_loss_masking_witness:
  "acgan_flag (conf (sample_trainer\<lparr>conf := sample_conf\<lparr>acgan_flag := True\<rparr>\<rparr>))
   \<and> nat (n_cycles (conf (sample_trainer\<lparr>conf := sample_conf\<lparr>acgan_flag := True\<rparr>\<rparr>))) \<le> length sample_outputs
   \<and> sample_loss ''G'' = Some (Const 0)
   \<and> (\<exists>l'. calculate_cycleadv_loss (sample_trainer\<lparr>conf := sample_conf\<lparr>acgan_flag := True\<rparr>\<rparr>)
              sample_batch sample_outputs sample_loss = Inr l'
        \<and> l' ''D_adv_0cyc_org'' =
            Some (Op ''mse''
              [MaskedSelect (SplitPart 0 [1, 4] 2
                 (Transpose 1 2 (Op ''D'' [Transpose 1 2 (Op ''get_D_inputs_cv'' [Input ''decoded_0_org''])])))
                 (Input ''decoder_mask''),
               OnesLike (MaskedSelect (SplitPart 0 [1, 4] 2
                 (Transpose 1 2 (Op ''D'' [Transpose 1 2 (Op ''get_D_inputs_cv'' [Input ''decoded_0_org''])])))
                 (Input ''decoder_mask''))]))"
proof -
  define tr where "tr = sample_trainer\<lparr>conf := sample_conf\<lparr>acgan_flag := True\<rparr>\<rparr>"
  have h0: "acgan_flag (conf tr)"
    and h1: "model tr ''D'' = Some (\<lambda>x. Op ''D'' [x])"
    and h2: "criterion tr ''mse'' = Some (\<lambda>x y. Op ''mse'' [x, y])"
    and h3: "criterion tr ''ce'' = Some (\<lambda>x y. Op ''ce'' [x, y])"
    and h4: "nat (n_cycles (conf tr)) \<le> length sample_outputs"
    and h5: "sample_loss ''G'' = Some (Const 0)"
    by (simp_all add: tr_def sample_trainer_def sample_conf_def sample_outputs_def sample_loss_def)
  have n: "nat (n_cycles (conf tr)) = 2"
    by (simp add: tr_def sample_trainer_def sample_conf_def)
  from calculate_cycleadv_loss_masking[where tr=tr and D="\<lambda>x. Op ''D'' [x]"
      and mse="\<lambda>x y. Op ''mse'' [x, y]" and ce="\<lambda>x y. Op ''ce'' [x, y]"
      and outputs=sample_outputs and l=sample_loss and ginit="Const 0" and b=sample_batch,
      OF h0 h1 h2 h3 h4 h5, unfolded Let_def n]
  obtain l' where r: "calculate_cycleadv_loss tr sample_batch sample_outputs sample_loss = Inr l'"
    and a: "\<forall>c<2. \<forall>io\<in>{''org'', ''cv''}.
       l' (''D_adv_'' @ string_of_nat c @ ''cyc_'' @ io) =
         Some (Op ''mse''
           [MaskedSelect (SplitPart 0 [1, n_spkrs tr] 2
              (Transpose 1 2 (Op ''D'' [Transpose 1 2 (get_D_inputs tr sample_batch (decoded (branch (sample_outputs ! c) io)) ''cv'')])))
              (decoder_mask sample_batch),
            OnesLike (MaskedSelect (SplitPart 0 [1, n_spkrs tr] 2
              (Transpose 1 2 (Op ''D'' [Transpose 1 2 (get_D_inputs tr sample_batch (decoded (branch (sample_outputs ! c) io)) ''cv'')])))
              (decoder_mask sample_batch))])
       \<and> l' (''D_acgan_adv_'' @ string_of_nat c @ ''cyc_'' @ io) =
         Some (Op ''ce'' [ReshapeRows (SplitPart 1 [1, n_spkrs tr] 2
              (Transpose 1 2 (Op ''D'' [Transpose 1 2 (get_D_inputs tr sample_batch (decoded (branch (sample_outputs ! c) io)) ''cv'')]))),
              Flatten (batch_h sample_batch io)])"
    by (elim exE conjE)
  from a have "l' (''D_adv_'' @ string_of_nat 0 @ ''cyc_'' @ ''org'') =
         Some (Op ''mse''
           [MaskedSelect (SplitPart 0 [1, n_spkrs tr] 2
              (Transpose 1 2 (Op ''D'' [Transpose 1 2 (get_D_inputs tr sample_batch (decoded (branch (sample_outputs ! 0) ''org'')) ''cv'')])))
              (decoder_mask sample_batch),
            OnesLike (MaskedSelect (SplitPart 0 [1, n_spkrs tr] 2
              (Transpose 1 2 (Op ''D'' [Transpose 1 2 (get_D_inputs tr sample_batch (decoded (branch (sample_outputs ! 0) ''org'')) ''cv'')])))
              (decoder_mask sample_batch))])"
    by simp
  then have v: "l' ''D_adv_0cyc_org'' =
            Some (Op ''mse''
              [MaskedSelect (SplitPart 0 [1, 4] 2
                 (Transpose 1 2 (Op ''D'' [Transpose 1 2 (Op ''get_D_inputs_cv'' [Input ''decoded_0_org''])])))
                 (Input ''decoder_mask''),
               OnesLike (MaskedSelect (SplitPart 0 [1, 4] 2
                 (Transpose 1 2 (Op ''D'' [Transpose 1 2 (Op ''get_D_inputs_cv'' [Input ''decoded_0_org''])])))
                 (Input ''decoder_mask''))])"
    by (simp add: string_of_nat_0 tr_def sample_trainer_def sample_outputs_def sample_batch_def branch_def)
  from r v h0 h4 h5 show ?thesis unfolding tr_def by blast
qed

section \<open>Properties of calculate_cycle_discriminator_loss\<close>

lemma nth_two_mod: "[x, y] ! (m mod 2) = (if m mod 2 = 0 then x else y)"
proof (cases "m mod 2 = 0")
  case True
  then show ?thesis by (simp only: nth_Cons_0 if_True simp_thms)
next
  case False
  then have "m mod 2 = Suc 0" by arith
  then show ?thesis by (simp only: nth_Cons_Suc nth_Cons_0 if_False nat.simps simp_thms)
qed

lemma random_choice_two:
  "random_choice [x, y] g = Inr (if g 0 mod 2 = 0 then x else y, \<lambda>i. g (Suc i))"
proof -
  have "length [x, y] = 2" by simp
  then show ?thesis unfolding random_choice_def
    by (simp only: nth_two_mod list.simps if_False)
qed

lemma cyc_key_eq_end:
  "string_of_nat c @ ''cyc'' = string_of_nat c' @ ''cyc'' \<longleftrightarrow> c = c'"
  using cyc_key_inj[of c "[]" c' "[]"] by auto

lemma cycle_discriminator_body_result:
  assumes D: "model tr ''D'' = Some D" and mse: "criterion tr ''mse'' = Some mse"
    and ce: "acgan_flag (conf tr) \<longrightarrow> criterion tr ''ce'' = Some ce"
    and ne: "outputs \<noteq> []"
    and d: "l ''D'' = Some d"
    and R: "R = Transpose 1 2 (D (Transpose 1 2 (get_D_inputs tr b (in_feats b) ''org'')))"
    and OFk: "OFk = Transpose 1 2 (D (Transpose 1 2
                (get_D_inputs tr b (Detach (decoded (branch (outputs ! 0) ''org''))) ''org'')))"
    and CFk: "CFk = Transpose 1 2 (D (Transpose 1 2
                (get_D_inputs tr b (Detach (decoded (branch (outputs ! 0) ''cv''))) ''cv'')))"
    and V: "V = (\<lambda>x. if acgan_flag (conf tr) then SplitPart 0 [1, n_spkrs tr] 2 x else x)"
    and CEr: "CEr = ce (ReshapeRows (SplitPart 1 [1, n_spkrs tr] 2 R)) (Flatten (org_h b))"
    and CEof: "CEof = ce (ReshapeRows (SplitPart 1 [1, n_spkrs tr] 2 OFk)) (Flatten (org_h b))"
    and CEcf: "CEcf = ce (ReshapeRows (SplitPart 1 [1, n_spkrs tr] 2 CFk)) (Flatten (cv_h b))"
    and RS: "RS = MaskedSelect (V R) (decoder_mask b)"
    and FS: "FS = (if g 0 mod 2 = 0 then MaskedSelect (V OFk) (cycle_decoder_mask b)
                   else MaskedSelect (V CFk) (decoder_mask b))"
    and T: "T = (if acgan_flag (conf tr) then
                   [Scale (alpha_acgan (alpha (conf tr))) CEr]
                   @ (if use_real_only_acgan (conf tr) then []
                      else [Scale (alpha_acgan (alpha (conf tr))) CEof])
                   @ [Scale (alpha_acgan (alpha (conf tr))) CEcf]
                 else [])
                @ [Add (Scale (alpha_fake (alpha (conf tr))) (mse FS (ZerosLike FS)))
                       (Scale (alpha_real (alpha (conf tr))) (mse RS (OnesLike RS)))]"
    and lbl: "lbl = string_of_nat c @ ''cyc''"
  shows "\<exists>l'. cycle_discriminator_body tr b outputs c (l, g) = Inr (l', \<lambda>i. g (Suc i))
      \<and> l' ''D'' = Some (foldl Add d T)
      \<and> l' (''D_real_'' @ lbl) = Some (mse RS (OnesLike RS))
      \<and> l' (''D_fake_'' @ lbl) = Some (mse FS (ZerosLike FS))
      \<and> (acgan_flag (conf tr) \<longrightarrow>
            l' (''D_ce_real_'' @ lbl) = Some CEr
          \<and> l' (''D_ce_org_fake_'' @ lbl) = Some CEof
          \<and> l' (''D_ce_cv_fake_'' @ lbl) = Some CEcf)
      \<and> (\<forall>k. k \<notin> {''D'', ''D_real_'' @ lbl, ''D_fake_'' @ lbl, ''D_ce_real_'' @ lbl,
                   ''D_ce_org_fake_'' @ lbl, ''D_ce_cv_fake_'' @ lbl} \<longrightarrow> l' k = l k)"
proof -
  have l0: "list_get outputs 0 = Inr (outputs ! 0)" using ne by (simp add: list_get_def)
  show ?thesis
  proof (cases "acgan_flag (conf tr)")
    case True
    with ce have ce': "criterion tr ''ce'' = Some ce" by simp
    show ?thesis
    proof (cases "use_real_only_acgan (conf tr)")
      case uro: True
      show ?thesis
      proof (cases "g 0 mod 2 = 0")
        case ev: True
        show ?thesis using True uro ev D mse ce' d l0
          unfolding R OFk CFk V CEr CEof CEcf RS FS T lbl cycle_discriminator_body_def
          by (simp add: random_choice_two discriminator_acgan_body_def bind_err_def getitem_def
              criterion_call_def return_sample_def loss_iadd_def Let_def branch_def)
      next
        case ev: False
        show ?thesis using True uro ev D mse ce' d l0
          unfolding R OFk CFk V CEr CEof CEcf RS FS T lbl cycle_discriminator_body_def
          by (simp add: random_choice_two discriminator_acgan_body_def bind_err_def getitem_def
              criterion_call_def return_sample_def loss_iadd_def Let_def branch_def)
      qed
    next
      case uro: False
      show ?thesis
      proof (cases "g 0 mod 2 = 0")
        case ev: True
        show ?thesis using True uro ev D mse ce' d l0
          unfolding R OFk CFk V CEr CEof CEcf RS FS T lbl cycle_discriminator_body_def
          by (simp add: random_choice_two discriminator_acgan_body_def bind_err_def getitem_def
              criterion_call_def return_sample_def loss_iadd_def Let_def branch_def)
      next
        case ev: False
        show ?thesis using True uro ev D mse ce' d l0
          unfolding R OFk CFk V CEr CEof CEcf RS FS T lbl cycle_discriminator_body_def
          by (simp add: random_choice_two discriminator_acgan_body_def bind_err_def getitem_def
              criterion_call_def return_sample_def loss_iadd_def Let_def branch_def)
      qed
    qed
  next
    case False
    show ?thesis
    proof (cases "g 0 mod 2 = 0")
      case ev: True
      show ?thesis using False ev D mse d l0
        unfolding R OFk CFk V CEr CEof CEcf RS FS T lbl cycle_discriminator_body_def
        by (simp add: random_choice_two bind_err_def getitem_def
            criterion_call_def return_sample_def loss_iadd_def Let_def branch_def)
    next
      case ev: False
      show ?thesis using False ev D mse d l0
        unfolding R OFk CFk V CEr CEof CEcf RS FS T lbl cycle_discriminator_body_def
        by (simp add: random_choice_two bind_err_def getitem_def
            criterion_call_def return_sample_def loss_iadd_def Let_def branch_def)
    qed
  qed
qed

lemma upt_prefix: "dn @ x # rest = [0..<n] \<Longrightarrow> x = length dn \<and> x < n \<and> x \<notin> set dn"
proof -
  assume e: "dn @ x # rest = [0..<n]"
  then have "length (dn @ x # rest) = n" by simp
  then have lt: "length dn < n" by simp
  have "(dn @ x # rest) ! length dn = x" by simp
  with e have "[0..<n] ! length dn = x" by simp
  with lt have x: "x = length dn" by simp
  have "distinct (dn @ x # rest)" unfolding e by simp
  then have "x \<notin> set dn" by simp
  with x lt show ?thesis by simp
qed

lemma calculate_cycle_discriminator_loss_result:
  assumes D: "model tr ''D'' = Some D" and mse: "criterion tr ''mse'' = Some mse"
    and ce: "acgan_flag (conf tr) \<longrightarrow> criterion tr ''ce'' = Some ce"
    and ne: "outputs \<noteq> []"
    and d: "l ''D'' = Some dinit"
  shows
    "let n = nat (n_cycles (conf tr));
         acg = acgan_flag (conf tr);
         R = Transpose 1 2 (D (Transpose 1 2 (get_D_inputs tr b (in_feats b) ''org'')));
         OFk = Transpose 1 2 (D (Transpose 1 2
                (get_D_inputs tr b (Detach (decoded (branch (outputs ! 0) ''org''))) ''org'')));
         CFk = Transpose 1 2 (D (Transpose 1 2
                (get_D_inputs tr b (Detach (decoded (branch (outputs ! 0) ''cv''))) ''cv'')));
         V = (\<lambda>x. if acg then SplitPart 0 [1, n_spkrs tr] 2 x else x);
         CEr = ce (ReshapeRows (SplitPart 1 [1, n_spkrs tr] 2 R)) (Flatten (org_h b));
         CEof = ce (ReshapeRows (SplitPart 1 [1, n_spkrs tr] 2 OFk)) (Flatten (org_h b));
         CEcf = ce (ReshapeRows (SplitPart 1 [1, n_spkrs tr] 2 CFk)) (Flatten (cv_h b));
         RS = MaskedSelect (V R) (decoder_mask b);
         FS = (\<lambda>c. if g c mod 2 = 0 then MaskedSelect (V OFk) (cycle_decoder_mask b)
                     else MaskedSelect (V CFk) (decoder_mask b));
         T = (\<lambda>c. (if acg then
                       [Scale (alpha_acgan (alpha (conf tr))) CEr]
                       @ (if use_real_only_acgan (conf tr) then []
                          else [Scale (alpha_acgan (alpha (conf tr))) CEof])
                       @ [Scale (alpha_acgan (alpha (conf tr))) CEcf]
                     else [])
                    @ [Add (Scale (alpha_fake (alpha (conf tr))) (mse (FS c) (ZerosLike (FS c))))
                           (Scale (alpha_real (alpha (conf tr))) (mse RS (OnesLike RS)))])
     in \<exists>l'. calculate_cycle_discriminator_loss tr b outputs l g = Inr (l', \<lambda>i. g (i + n))
          \<and> l' ''D'' = Some (foldl Add dinit (concat (map T [0..<n])))
          \<and> (\<forall>c<n. l' (''D_real_'' @ string_of_nat c @ ''cyc'') = Some (mse RS (OnesLike RS))
                   \<and> l' (''D_fake_'' @ string_of_nat c @ ''cyc'') = Some (mse (FS c) (ZerosLike (FS c)))
                   \<and> (acg \<longrightarrow>
                         l' (''D_ce_real_'' @ string_of_nat c @ ''cyc'') = Some CEr
                       \<and> l' (''D_ce_org_fake_'' @ string_of_nat c @ ''cyc'') = Some CEof
                       \<and> l' (''D_ce_cv_fake_'' @ string_of_nat c @ ''cyc'') = Some CEcf))"
proof -
  define n where "n = nat (n_cycles (conf tr))"
  define acg where "acg = acgan_flag (conf tr)"
  define R where "R = Transpose 1 2 (D (Transpose 1 2 (get_D_inputs tr b (in_feats b) ''org'')))"
  define OFk where "OFk = Transpose 1 2 (D (Transpose 1 2
                (get_D_inputs tr b (Detach (decoded (branch (outputs ! 0) ''org''))) ''org'')))"
  define CFk where "CFk = Transpose 1 2 (D (Transpose 1 2
                (get_D_inputs tr b (Detach (decoded (branch (outputs ! 0) ''cv''))) ''cv'')))"
  define V where "V = (\<lambda>x. if acg then SplitPart 0 [1, n_spkrs tr] 2 x else x)"
  define CEr where "CEr = ce (ReshapeRows (SplitPart 1 [1, n_spkrs tr] 2 R)) (Flatten (org_h b))"
  define CEof where "CEof = ce (ReshapeRows (SplitPart 1 [1, n_spkrs tr] 2 OFk)) (Flatten (org_h b))"
  define CEcf where "CEcf = ce (ReshapeRows (SplitPart 1 [1, n_spkrs tr] 2 CFk)) (Flatten (cv_h b))"
  define RS where "RS = MaskedSelect (V R) (decoder_mask b)"
  define FS where "FS = (\<lambda>c. if g c mod 2 = 0 then MaskedSelect (V OFk) (cycle_decoder_mask b)
                     else MaskedSelect (V CFk) (decoder_mask b))"
  define T where "T = (\<lambda>c. (if acg then
                       [Scale (alpha_acgan (alpha (conf tr))) CEr]
                       @ (if use_real_only_acgan (conf tr) then []
                          else [Scale (alpha_acgan (alpha (conf tr))) CEof])
                       @ [Scale (alpha_acgan (alpha (conf tr))) CEcf]
                     else [])
                    @ [Add (Scale (alpha_fake (alpha (conf tr))) (mse (FS c) (ZerosLike (FS c))))
                           (Scale (alpha_real (alpha (conf tr))) (mse RS (OnesLike RS)))])"
  define rk where "rk = (\<lambda>c. ''D_real_'' @ string_of_nat c @ ''cyc'')"
  define fk where "fk = (\<lambda>c. ''D_fake_'' @ string_of_nat c @ ''cyc'')"
  define cer where "cer = (\<lambda>c. ''D_ce_real_'' @ string_of_nat c @ ''cyc'')"
  define ceof where "ceof = (\<lambda>c. ''D_ce_org_fake_'' @ string_of_nat c @ ''cyc'')"
  define cecf where "cecf = (\<lambda>c. ''D_ce_cv_fake_'' @ string_of_nat c @ ''cyc'')"
  define Q where "Q = (\<lambda>(l'::loss) c. l' (rk c) = Some (mse RS (OnesLike RS))
                   \<and> l' (fk c) = Some (mse (FS c) (ZerosLike (FS c)))
                   \<and> (acg \<longrightarrow> l' (cer c) = Some CEr \<and> l' (ceof c) = Some CEof \<and> l' (cecf c) = Some CEcf))"
  define P where "P = (\<lambda>dn (s :: loss \<times> rng).
       snd s = (\<lambda>i. g (i + length dn))
     \<and> fst s ''D'' = Some (foldl Add dinit (concat (map T dn)))
     \<and> (\<forall>c\<in>set dn. Q (fst s) c))"
  have body: "\<exists>l'. cycle_discriminator_body tr b outputs c (l1, g1) = Inr (l', \<lambda>i. g1 (Suc i))
      \<and> l' ''D'' = Some (foldl Add d1 (T c))
      \<and> Q l' c
      \<and> (\<forall>k. k \<notin> {''D'', rk c, fk c, cer c, ceof c, cecf c} \<longrightarrow> l' k = l1 k)"
    if "l1 ''D'' = Some d1" "g1 0 = g c" for l1 g1 d1 c
    using cycle_discriminator_body_result[where tr=tr and D=D and mse=mse and ce=ce
        and outputs=outputs and l=l1 and d=d1 and b=b and g=g1 and c=c
        and R=R and OFk=OFk and CFk=CFk and V=V and CEr=CEr and CEof=CEof and CEcf=CEcf
        and RS=RS and FS="FS c" and T="T c" and lbl="string_of_nat c @ ''cyc''",
        OF D mse ce ne that(1)] that(2)
    unfolding Q_def rk_def fk_def cer_def ceof_def cecf_def
    unfolding R_def OFk_def CFk_def V_def CEr_def CEof_def CEcf_def RS_def FS_def T_def acg_def
    by simp
  have keys: "k c \<noteq> ''D''" "k c \<noteq> k' c'" if "k \<in> {rk, fk, cer, ceof, cecf}"
      "k' \<in> {rk, fk, cer, ceof, cecf}" "c \<noteq> c'" for k k' c c'
    using that by (auto simp: rk_def fk_def cer_def ceof_def cecf_def cyc_key_eq dest: string_of_nat_inj)
  have step: "\<exists>s'. cycle_discriminator_body tr b outputs x s = Inr s' \<and> P (dn @ [x]) s'"
    if dx: "dn @ x # rest = [0..<n]" and p: "P dn s" for dn x rest s
  proof -
    obtain l1 g1 where s: "s = (l1, g1)" by (cases s)
    from upt_prefix[OF dx] have x: "x = length dn" "x \<notin> set dn" by blast+
    from p s have g1: "g1 = (\<lambda>i. g (i + length dn))"
      and d1: "l1 ''D'' = Some (foldl Add dinit (concat (map T dn)))"
      and q1: "\<forall>c\<in>set dn. Q l1 c"
      by (simp_all add: P_def)
    have gx: "g1 0 = g x" by (simp add: g1 x)
    from body[of l1 "foldl Add dinit (concat (map T dn))" g1 x, OF d1 gx] obtain l2 where
      run: "cycle_discriminator_body tr b outputs x (l1, g1) = Inr (l2, \<lambda>i. g1 (Suc i))"
      and d2: "l2 ''D'' = Some (foldl Add (foldl Add dinit (concat (map T dn))) (T x))"
      and q2: "Q l2 x"
      and fr: "\<forall>k. k \<notin> {''D'', rk x, fk x, cer x, ceof x, cecf x} \<longrightarrow> l2 k = l1 k"
      by blast
    have a: "(\<lambda>i. g1 (Suc i)) = (\<lambda>i. g (i + length (dn @ [x])))" by (simp add: g1)
    have b: "l2 ''D'' = Some (foldl Add dinit (concat (map T (dn @ [x]))))" using d2 by simp
    have c: "Q l2 c" if "c \<in> set (dn @ [x])" for c
    proof (cases "c = x")
      case True
      with q2 show ?thesis by simp
    next
      case False
      with that have cd: "c \<in> set dn" by simp
      have "l2 (k c) = l1 (k c)" if "k \<in> {rk, fk, cer, ceof, cecf}" for k
      proof -
        have "k c \<notin> {''D'', rk x, fk x, cer x, ceof x, cecf x}"
          using keys(1)[OF that that False] keys(2)[OF that _ False] by simp
        with fr show ?thesis by blast
      qed
      then have "l2 (rk c) = l1 (rk c)" "l2 (fk c) = l1 (fk c)" "l2 (cer c) = l1 (cer c)"
        "l2 (ceof c) = l1 (ceof c)" "l2 (cecf c) = l1 (cecf c)" by simp_all
      with q1 cd show ?thesis unfolding Q_def by simp
    qed
    from a b c have "P (dn @ [x]) (l2, \<lambda>i. g1 (Suc i))" unfolding P_def by simp
    with run s show ?thesis by blast
  qed
  have "\<exists>s'. for_err [0..<n] (cycle_discriminator_body tr b outputs) (l, g) = Inr s' \<and> P [0..<n] s'"
  proof (rule for_err_rule[where P=P])
    show "P [] (l, g)" using d by (simp add: P_def)
  next
    fix dn x rest s
    assume "dn @ x # rest = [0..<n]" "P dn s"
    then show "\<exists>s'. cycle_discriminator_body tr b outputs x s = Inr s' \<and> P (dn @ [x]) s'"
      by (rule step)
  qed
  then obtain l' g' where run: "calculate_cycle_discriminator_loss tr b outputs l g = Inr (l', g')"
    and p: "P [0..<n] (l', g')"
    unfolding calculate_cycle_discriminator_loss_def range_py_def n_def by auto
  from p have g': "g' = (\<lambda>i. g (i + n))" and r1: "l' ''D'' = Some (foldl Add dinit (concat (map T [0..<n])))"
    and r2: "\<forall>c<n. Q l' c"
    by (simp_all add: P_def)
  show ?thesis
    unfolding Let_def
    using run r1 r2
    unfolding g' Q_def rk_def fk_def cer_def ceof_def cecf_def
    unfolding n_def acg_def T_def FS_def RS_def CEr_def CEof_def CEcf_def V_def R_def OFk_def CFk_def acg_def
    by blast
qed

text \<open>
  C4, as the claim states it, fails: the branch of the fake term is not chosen once per
  step. With two cycles and the draws \<open>0, 1, 2, ...\<close> one call uses the \<open>"org"\<close>-branch
  fake (under \<open>cycle_decoder_mask\<close>) for cycle 0 and the \<open>"cv"\<close>-branch fake (under
  \<open>decoder_mask\<close>) for cycle 1, and takes two draws from the generator.
\<close>

theorem calculate_cycle_discriminator_loss_choice_per_cycle_counterexample:
  "\<not> isl (calculate_cycle_discriminator_loss sample_trainer sample_batch sample_outputs
            sample_loss (\<lambda>i. i))
   \<and> map_option inputs
        (fst (projr (calculate_cycle_discriminator_loss sample_trainer sample_batch sample_outputs
            sample_loss (\<lambda>i. i))) ''D_fake_0cyc'')
       = Some [''decoded_0_org'', ''cycle_decoder_mask'', ''decoded_0_org'', ''cycle_decoder_mask'']
   \<and> map_option inputs
        (fst (projr (calculate_cycle_discriminator_loss sample_trainer sample_batch sample_outputs
            sample_loss (\<lambda>i. i))) ''D_fake_1cyc'')
       = Some [''decoded_0_cv'', ''decoder_mask'', ''decoded_0_cv'', ''decoder_mask'']
   \<and> snd (projr (calculate_cycle_discriminator_loss sample_trainer sample_batch sample_outputs
            sample_loss (\<lambda>i. i))) 0 = 2"
  by (simp add: calculate_cycle_discriminator_loss_def cycle_discriminator_body_def
      sample_trainer_def sample_conf_def sample_batch_def sample_outputs_def sample_loss_def
      range_py_2 bind_err_def getitem_def list_get_def return_sample_def criterion_call_def
      loss_iadd_def branch_def random_choice_def string_of_nat.simps digit_def Let_def)

text \<open>The outputs of the cycles after the first never enter the result.\<close>

lemma calculate_cycle_discriminator_loss_ignores_later_cycles:
  "calculate_cycle_discriminator_loss tr b (out # outs) l g
     = calculate_cycle_discriminator_loss tr b [out] l g"
proof -
  have "cycle_discriminator_body tr b (out # outs) = cycle_discriminator_body tr b [out]"
    by (intro ext) (simp add: cycle_discriminator_body_def list_get_def split_def)
  then show ?thesis by (simp add: calculate_cycle_discriminator_loss_def)
qed

text \<open>
  C2: the code takes the fake samples of every cycle from \<open>outputs[0]\<close>. With two
  cycles whose decoded outputs differ, the fake term of cycle 1 is computed from the
  decoded output of cycle 0, and replacing the outputs of cycle 1 by those of cycle 0
  changes nothing in the result. The generator outputs enter the \<open>"D"\<close> total only
  detached: the inputs from which gradients reach it are the input features and the
  masks.
\<close>

theorem calculate_cycle_discriminator_loss_first_cycle_only:
  "\<not> isl (calculate_cycle_discriminator_loss sample_trainer sample_batch sample_outputs
            sample_loss (\<lambda>i. 0))
   \<and> fst (projr (calculate_cycle_discriminator_loss sample_trainer sample_batch sample_outputs
            sample_loss (\<lambda>i. 0))) ''D_fake_1cyc''
       = Some (Op ''mse''
           [MaskedSelect
              (Transpose 1 2 (Op ''D'' [Transpose 1 2
                 (Op ''get_D_inputs_org'' [Detach (Input ''decoded_0_org'')])]))
              (Input ''cycle_decoder_mask''),
            ZerosLike (MaskedSelect
              (Transpose 1 2 (Op ''D'' [Transpose 1 2
                 (Op ''get_D_inputs_org'' [Detach (Input ''decoded_0_org'')])]))
              (Input ''cycle_decoder_mask''))])
   \<and> calculate_cycle_discriminator_loss sample_trainer sample_batch sample_outputs
            sample_loss (\<lambda>i. 0)
     = calculate_cycle_discriminator_loss sample_trainer sample_batch
         [sample_outputs ! 0, sample_outputs ! 0] sample_loss (\<lambda>i. 0)
   \<and> map_option (remdups \<circ> attached)
        (fst (projr (calculate_cycle_discriminator_loss sample_trainer sample_batch sample_outputs
            sample_loss (\<lambda>i. 0))) ''D'')
       = Some [''cycle_decoder_mask'', ''in_feats'', ''decoder_mask'']"
  by (simp add: calculate_cycle_discriminator_loss_def cycle_discriminator_body_def
      sample_trainer_def sample_conf_def sample_batch_def sample_outputs_def sample_loss_def
      range_py_2 bind_err_def getitem_def list_get_def return_sample_def criterion_call_def
      loss_iadd_def branch_def random_choice_def string_of_nat.simps digit_def Let_def)


text \<open>
  C4, amended: in \<open>update_D\<close> (in \<open>calculate_cycle_discriminator_loss\<close>) the source
  branch of the fake term is chosen by a call of
  \<open>random.choice(["org_fake", "cv_fake"])\<close> of its own in every cycle: cycle \<open>c\<close> takes
  the draw that follows the \<open>c\<close> draws of the cycles before it, a step takes \<open>n_cycles\<close>
  draws, and only the chosen branch enters the fake term of the cycle. The mask of the
  chosen fake sample is \<open>cycle_decoder_mask\<close> when \<open>"org_fake"\<close> is chosen and
  \<open>decoder_mask\<close> when \<open>"cv_fake"\<close> is chosen.
\<close>

theorem calculate_cycle_discriminator_loss_fake_choice:
  assumes D: "model tr ''D'' = Some D" and mse: "criterion tr ''mse'' = Some mse"
    and ce: "acgan_flag (conf tr) \<longrightarrow> criterion tr ''ce'' = Some ce"
    and ne: "outputs \<noteq> []"
    and d: "l ''D'' = Some dinit"
    and c: "c < nat (n_cycles (conf tr))"
  shows
    "let fake_key = [''org_fake'', ''cv_fake''] ! (g c mod 2);
         V = (\<lambda>x. if acgan_flag (conf tr) then SplitPart 0 [1, n_spkrs tr] 2 x else x);
         org_fake = V (Transpose 1 2 (D (Transpose 1 2
                (get_D_inputs tr b (Detach (decoded (branch (outputs ! 0) ''org''))) ''org''))));
         cv_fake = V (Transpose 1 2 (D (Transpose 1 2
                (get_D_inputs tr b (Detach (decoded (branch (outputs ! 0) ''cv''))) ''cv''))));
         fake_sample = (if fake_key = ''org_fake''
                        then MaskedSelect org_fake (cycle_decoder_mask b)
                        else MaskedSelect cv_fake (decoder_mask b))
     in \<exists>l'. calculate_cycle_discriminator_loss tr b outputs l g
                = Inr (l', \<lambda>i. g (i + nat (n_cycles (conf tr))))
          \<and> random_choice [''org_fake'', ''cv_fake''] (\<lambda>i. g (i + c))
                = Inr (fake_key, \<lambda>i. g (i + Suc c))
          \<and> l' (''D_fake_'' @ string_of_nat c @ ''cyc'')
                = Some (mse fake_sample (ZerosLike fake_sample))"
proof -
  define n where "n = nat (n_cycles (conf tr))"
  define fake_key where "fake_key = [''org_fake'', ''cv_fake''] ! (g c mod 2)"
  define V where "V = (\<lambda>x. if acgan_flag (conf tr) then SplitPart 0 [1, n_spkrs tr] 2 x else x)"
  define org_fake where "org_fake = V (Transpose 1 2 (D (Transpose 1 2
                (get_D_inputs tr b (Detach (decoded (branch (outputs ! 0) ''org''))) ''org''))))"
  define cv_fake where "cv_fake = V (Transpose 1 2 (D (Transpose 1 2
                (get_D_inputs tr b (Detach (decoded (branch (outputs ! 0) ''cv''))) ''cv''))))"
  define fake_sample where "fake_sample = (if fake_key = ''org_fake''
                              then MaskedSelect org_fake (cycle_decoder_mask b)
                              else MaskedSelect cv_fake (decoder_mask b))"
  define FS where "FS = (\<lambda>c. if g c mod 2 = 0 then MaskedSelect org_fake (cycle_decoder_mask b)
                     else MaskedSelect cv_fake (decoder_mask b))"
  have fk: "fake_key = (if g c mod 2 = 0 then ''org_fake'' else ''cv_fake'')"
    unfolding fake_key_def by (rule nth_two_mod)
  have fs: "fake_sample = FS c"
    unfolding fake_sample_def FS_def fk by simp
  have "\<exists>l'. calculate_cycle_discriminator_loss tr b outputs l g = Inr (l', \<lambda>i. g (i + n))
      \<and> (\<forall>c<n. l' (''D_fake_'' @ string_of_nat c @ ''cyc'') = Some (mse (FS c) (ZerosLike (FS c))))"
    using calculate_cycle_discriminator_loss_result[where tr=tr and D=D and mse=mse and ce=ce
        and outputs=outputs and l=l and dinit=dinit and b=b and g=g, OF D mse ce ne d,
        unfolded Let_def]
    unfolding n_def FS_def org_fake_def cv_fake_def V_def
    by (elim exE conjE, intro exI conjI) (assumption, blast)
  then obtain l' where run: "calculate_cycle_discriminator_loss tr b outputs l g = Inr (l', \<lambda>i. g (i + n))"
    and r: "l' (''D_fake_'' @ string_of_nat c @ ''cyc'') = Some (mse (FS c) (ZerosLike (FS c)))"
    using c n_def by blast
  have rc: "random_choice [''org_fake'', ''cv_fake''] (\<lambda>i. g (i + c)) = Inr (fake_key, \<lambda>i. g (i + Suc c))"
    unfolding fk by (simp add: random_choice_two)
  show ?thesis
    unfolding Let_def
    using run r rc
    unfolding fs[symmetric] fake_sample_def org_fake_def cv_fake_def V_def fake_key_def n_def
    by blast
qed

theorem calculate_cycle_discriminator_loss_fake_choice_witness:
  "model sample_trainer ''D'' = Some (\<lambda>x. Op ''D'' [x])
   \<and> criterion sample_trainer ''mse'' = Some (\<lambda>x y. Op ''mse'' [x, y])
   \<and> sample_outputs \<noteq> []
   \<and> sample_loss ''D'' = Some (Const 0)
   \<and> Suc 0 < nat (n_cycles (conf sample_trainer))
   \<and> (\<exists>l'. calculate_cycle_discriminator_loss sample_trainer sample_batch sample_outputs
               sample_loss (\<lambda>i. i) = Inr (l', \<lambda>i. i + 2)
        \<and> l' ''D_fake_1cyc'' =
            Some (Op ''mse''
              [MaskedSelect
                 (Transpose 1 2 (Op ''D'' [Transpose 1 2
                    (Op ''get_D_inputs_cv'' [Detach (Input ''decoded_0_cv'')])]))
                 (Input ''decoder_mask''),
               ZerosLike (MaskedSelect
                 (Transpose 1 2 (Op ''D'' [Transpose 1 2
                    (Op ''get_D_inputs_cv'' [Detach (Input ''decoded_0_cv'')])]))
                 (Input ''decoder_mask''))]))"
proof -
  have h1: "model sample_trainer ''D'' = Some (\<lambda>x. Op ''D'' [x])"
    and h2: "criterion sample_trainer ''mse'' = Some (\<lambda>x y. Op ''mse'' [x, y])"
    and h3: "acgan_flag (conf sample_trainer) \<longrightarrow> criterion sample_trainer ''ce'' = Some (\<lambda>x y. Op ''ce'' [x, y])"
    and h4: "sample_outputs \<noteq> []"
    and h5: "sample_loss ''D'' = Some (Const 0)"
    and h6: "Suc 0 < nat (n_cycles (conf sample_trainer))"
    by (simp_all add: sample_trainer_def sample_conf_def sample_outputs_def sample_loss_def)
  have n: "nat (n_cycles (conf sample_trainer)) = 2"
    by (simp add: sample_trainer_def sample_conf_def)
  note t = calculate_cycle_discriminator_loss_fake_choice[where tr=sample_trainer
      and D="\<lambda>x. Op ''D'' [x]" and mse="\<lambda>x y. Op ''mse'' [x, y]" and ce="\<lambda>x y. Op ''ce'' [x, y]"
      and outputs=sample_outputs and l=sample_loss and dinit="Const 0" and b=sample_batch
      and g="\<lambda>i. i" and c="Suc 0", OF h1 h2 h3 h4 h5 h6, unfolded Let_def n]
  have k: "''D_fake_'' @ string_of_nat (Suc 0) @ ''cyc'' = ''D_fake_1cyc''"
    by (simp add: string_of_nat_1)
  have a: "acgan_flag (conf sample_trainer) = False" "get_D_inputs sample_trainer = (\<lambda>b x label. Op (''get_D_inputs_'' @ label) [x])"
    by (simp_all add: sample_trainer_def sample_conf_def)
  have "\<exists>l'. calculate_cycle_discriminator_loss sample_trainer sample_batch sample_outputs
               sample_loss (\<lambda>i. i) = Inr (l', \<lambda>i. i + 2)
        \<and> l' ''D_fake_1cyc'' =
            Some (Op ''mse''
              [MaskedSelect
                 (Transpose 1 2 (Op ''D'' [Transpose 1 2
                    (Op ''get_D_inputs_cv'' [Detach (Input ''decoded_0_cv'')])]))
                 (Input ''decoder_mask''),
               ZerosLike (MaskedSelect
                 (Transpose 1 2 (Op ''D'' [Transpose 1 2
                    (Op ''get_D_inputs_cv'' [Detach (Input ''decoded_0_cv'')])]))
                 (Input ''decoder_mask''))])"
    using t unfolding k a
    by (simp add: sample_outputs_def sample_batch_def branch_def) blast
  with h1 h2 h4 h5 h6 show ?thesis by blast
qed

text \<open>
  C6: when \<open>acgan_flag\<close> and \<open>use_real_only_acgan\<close> are set, every cycle writes the
  cross-entropy of each of \<open>"real"\<close>, \<open>"org_fake"\<close> and \<open>"cv_fake"\<close> into the
  accumulator under its own key \<open>"D_ce_{k}_{c}cyc"\<close>, and the \<open>"D"\<close> total grows, for
  every cycle, by the \<open>"real"\<close> and the \<open>"cv_fake"\<close> cross-entropy weighted by
  \<open>alpha["acgan"]\<close> and by the weighted fake and real squared-error terms: the
  \<open>"org_fake"\<close> cross-entropy is not among the summands.
\<close>

theorem calculate_cycle_discriminator_loss_real_only_acgan:
  assumes acg: "acgan_flag (conf tr)" and uro: "use_real_only_acgan (conf tr)"
    and D: "model tr ''D'' = Some D" and mse: "criterion tr ''mse'' = Some mse"
    and ce: "criterion tr ''ce'' = Some ce"
    and ne: "outputs \<noteq> []"
    and d: "l ''D'' = Some dinit"
  shows
    "let n = nat (n_cycles (conf tr));
         R = Transpose 1 2 (D (Transpose 1 2 (get_D_inputs tr b (in_feats b) ''org'')));
         OFk = Transpose 1 2 (D (Transpose 1 2
                (get_D_inputs tr b (Detach (decoded (branch (outputs ! 0) ''org''))) ''org'')));
         CFk = Transpose 1 2 (D (Transpose 1 2
                (get_D_inputs tr b (Detach (decoded (branch (outputs ! 0) ''cv''))) ''cv'')));
         CEr = ce (ReshapeRows (SplitPart 1 [1, n_spkrs tr] 2 R)) (Flatten (org_h b));
         CEof = ce (ReshapeRows (SplitPart 1 [1, n_spkrs tr] 2 OFk)) (Flatten (org_h b));
         CEcf = ce (ReshapeRows (SplitPart 1 [1, n_spkrs tr] 2 CFk)) (Flatten (cv_h b));
         RS = MaskedSelect (SplitPart 0 [1, n_spkrs tr] 2 R) (decoder_mask b);
         FS = (\<lambda>c. if g c mod 2 = 0
                     then MaskedSelect (SplitPart 0 [1, n_spkrs tr] 2 OFk) (cycle_decoder_mask b)
                     else MaskedSelect (SplitPart 0 [1, n_spkrs tr] 2 CFk) (decoder_mask b))
     in \<exists>l' g'. calculate_cycle_discriminator_loss tr b outputs l g = Inr (l', g')
          \<and> (\<forall>c<n. l' (''D_ce_real_'' @ string_of_nat c @ ''cyc'') = Some CEr
                   \<and> l' (''D_ce_org_fake_'' @ string_of_nat c @ ''cyc'') = Some CEof
                   \<and> l' (''D_ce_cv_fake_'' @ string_of_nat c @ ''cyc'') = Some CEcf)
          \<and> l' ''D'' = Some (foldl Add dinit (concat (map
                (\<lambda>c. [Scale (alpha_acgan (alpha (conf tr))) CEr,
                      Scale (alpha_acgan (alpha (conf tr))) CEcf,
                      Add (Scale (alpha_fake (alpha (conf tr))) (mse (FS c) (ZerosLike (FS c))))
                          (Scale (alpha_real (alpha (conf tr))) (mse RS (OnesLike RS)))])
                [0..<n])))"
proof -
  define n where "n = nat (n_cycles (conf tr))"
  define R where "R = Transpose 1 2 (D (Transpose 1 2 (get_D_inputs tr b (in_feats b) ''org'')))"
  define OFk where "OFk = Transpose 1 2 (D (Transpose 1 2
                (get_D_inputs tr b (Detach (decoded (branch (outputs ! 0) ''org''))) ''org'')))"
  define CFk where "CFk = Transpose 1 2 (D (Transpose 1 2
                (get_D_inputs tr b (Detach (decoded (branch (outputs ! 0) ''cv''))) ''cv'')))"
  define V where "V = (\<lambda>x. if acgan_flag (conf tr) then SplitPart 0 [1, n_spkrs tr] 2 x else x)"
  define CEr where "CEr = ce (ReshapeRows (SplitPart 1 [1, n_spkrs tr] 2 R)) (Flatten (org_h b))"
  define CEof where "CEof = ce (ReshapeRows (SplitPart 1 [1, n_spkrs tr] 2 OFk)) (Flatten (org_h b))"
  define CEcf where "CEcf = ce (ReshapeRows (SplitPart 1 [1, n_spkrs tr] 2 CFk)) (Flatten (cv_h b))"
  define RS where "RS = MaskedSelect (V R) (decoder_mask b)"
  define FS where "FS = (\<lambda>c. if g c mod 2 = 0 then MaskedSelect (V OFk) (cycle_decoder_mask b)
                     else MaskedSelect (V CFk) (decoder_mask b))"
  define T where "T = (\<lambda>c. (if acgan_flag (conf tr) then
                       [Scale (alpha_acgan (alpha (conf tr))) CEr]
                       @ (if use_real_only_acgan (conf tr) then []
                          else [Scale (alpha_acgan (alpha (conf tr))) CEof])
                       @ [Scale (alpha_acgan (alpha (conf tr))) CEcf]
                     else [])
                    @ [Add (Scale (alpha_fake (alpha (conf tr))) (mse (FS c) (ZerosLike (FS c))))
                           (Scale (alpha_real (alpha (conf tr))) (mse RS (OnesLike RS)))])"
  have ce': "acgan_flag (conf tr) \<longrightarrow> criterion tr ''ce'' = Some ce" using ce by simp
  have "\<exists>l'. calculate_cycle_discriminator_loss tr b outputs l g = Inr (l', \<lambda>i. g (i + n))
          \<and> l' ''D'' = Some (foldl Add dinit (concat (map T [0..<n])))
          \<and> (\<forall>c<n. l' (''D_real_'' @ string_of_nat c @ ''cyc'') = Some (mse RS (OnesLike RS))
                   \<and> l' (''D_fake_'' @ string_of_nat c @ ''cyc'') = Some (mse (FS c) (ZerosLike (FS c)))
                   \<and> (acgan_flag (conf tr) \<longrightarrow>
                         l' (''D_ce_real_'' @ string_of_nat c @ ''cyc'') = Some CEr
                       \<and> l' (''D_ce_org_fake_'' @ string_of_nat c @ ''cyc'') = Some CEof
                       \<and> l' (''D_ce_cv_fake_'' @ string_of_nat c @ ''cyc'') = Some CEcf))"
    unfolding n_def T_def FS_def RS_def CEr_def CEof_def CEcf_def V_def R_def OFk_def CFk_def
    by (rule calculate_cycle_discriminator_loss_result[where tr=tr and D=D and mse=mse and ce=ce
        and outputs=outputs and l=l and dinit=dinit and b=b and g=g, OF D mse ce' ne d,
        unfolded Let_def])
  then obtain l' where run: "calculate_cycle_discriminator_loss tr b outputs l g = Inr (l', \<lambda>i. g (i + n))"
    and r1: "l' ''D'' = Some (foldl Add dinit (concat (map T [0..<n])))"
    and r2: "\<forall>c<n. l' (''D_ce_real_'' @ string_of_nat c @ ''cyc'') = Some CEr
                   \<and> l' (''D_ce_org_fake_'' @ string_of_nat c @ ''cyc'') = Some CEof
                   \<and> l' (''D_ce_cv_fake_'' @ string_of_nat c @ ''cyc'') = Some CEcf"
    using acg by blast
  have T: "T = (\<lambda>c. [Scale (alpha_acgan (alpha (conf tr))) CEr,
                      Scale (alpha_acgan (alpha (conf tr))) CEcf,
                      Add (Scale (alpha_fake (alpha (conf tr))) (mse (FS c) (ZerosLike (FS c))))
                          (Scale (alpha_real (alpha (conf tr))) (mse RS (OnesLike RS)))])"
    unfolding T_def using acg uro by simp
  have V: "V x = SplitPart 0 [1, n_spkrs tr] 2 x" for x unfolding V_def using acg by simp
  show ?thesis
    unfolding Let_def
    using run r1 r2
    unfolding T FS_def RS_def V
    unfolding n_def CEr_def CEof_def CEcf_def R_def OFk_def CFk_def
    by blast
qed


theorem calculate_cycle_discriminator_loss_real_only_acgan_witness:
  "acgan_flag (conf (sample_trainer\<lparr>conf := sample_conf\<lparr>acgan_flag := True,
       use_real_only_acgan := True, n_cycles := 1\<rparr>\<rparr>))
   \<and> use_real_only_acgan (conf (sample_trainer\<lparr>conf := sample_conf\<lparr>acgan_flag := True,
       use_real_only_acgan := True, n_cycles := 1\<rparr>\<rparr>))
   \<and> sample_outputs \<noteq> []
   \<and> sample_loss ''D'' = Some (Const 0)
   \<and> (\<exists>l' g'. calculate_cycle_discriminator_loss
          (sample_trainer\<lparr>conf := sample_conf\<lparr>acgan_flag := True,
             use_real_only_acgan := True, n_cycles := 1\<rparr>\<rparr>)
          sample_batch sample_outputs sample_loss (\<lambda>i. 0) = Inr (l', g')
        \<and> l' ''D_ce_org_fake_0cyc'' =
            Some (Op ''ce''
              [ReshapeRows (SplitPart 1 [1, 4] 2
                 (Transpose 1 2 (Op ''D'' [Transpose 1 2
                    (Op ''get_D_inputs_org'' [Detach (Input ''decoded_0_org'')])]))),
               Flatten (Input ''org_h'')])
        \<and> map_option inputs (l' ''D'') =
            Some [''in_feats'', ''org_h'', ''decoded_0_cv'', ''cv_h'',
                  ''decoded_0_org'', ''cycle_decoder_mask'', ''decoded_0_org'', ''cycle_decoder_mask'',
                  ''in_feats'', ''decoder_mask'', ''in_feats'', ''decoder_mask''])"
proof -
  define tr where "tr = sample_trainer\<lparr>conf := sample_conf\<lparr>acgan_flag := True,
       use_real_only_acgan := True, n_cycles := 1\<rparr>\<rparr>"
  have h0: "acgan_flag (conf tr)" and h0': "use_real_only_acgan (conf tr)"
    and h1: "model tr ''D'' = Some (\<lambda>x. Op ''D'' [x])"
    and h2: "criterion tr ''mse'' = Some (\<lambda>x y. Op ''mse'' [x, y])"
    and h3: "criterion tr ''ce'' = Some (\<lambda>x y. Op ''ce'' [x, y])"
    and h4: "sample_outputs \<noteq> []"
    and h5: "sample_loss ''D'' = Some (Const 0)"
    by (simp_all add: tr_def sample_trainer_def sample_conf_def sample_outputs_def sample_loss_def)
  have n: "nat (n_cycles (conf tr)) = Suc 0"
    by (simp add: tr_def sample_trainer_def sample_conf_def)
  note t = calculate_cycle_discriminator_loss_real_only_acgan[where tr=tr
      and D="\<lambda>x. Op ''D'' [x]" and mse="\<lambda>x y. Op ''mse'' [x, y]" and ce="\<lambda>x y. Op ''ce'' [x, y]"
      and outputs=sample_outputs and l=sample_loss and dinit="Const 0" and b=sample_batch
      and g="\<lambda>i. 0", OF h0 h0' h1 h2 h3 h4 h5, unfolded Let_def n]
  have a: "n_spkrs tr = 4" "get_D_inputs tr = (\<lambda>b x label. Op (''get_D_inputs_'' @ label) [x])"
    "alpha (conf tr) = \<lparr>alpha_adv = 2, alpha_acgan = 3, alpha_fake = 5, alpha_real = 7\<rparr>"
    by (simp_all add: tr_def sample_trainer_def sample_conf_def)
  have "\<exists>l' g'. calculate_cycle_discriminator_loss tr sample_batch sample_outputs sample_loss (\<lambda>i. 0)
          = Inr (l', g')
        \<and> l' ''D_ce_org_fake_0cyc'' =
            Some (Op ''ce''
              [ReshapeRows (SplitPart 1 [1, 4] 2
                 (Transpose 1 2 (Op ''D'' [Transpose 1 2
                    (Op ''get_D_inputs_org'' [Detach (Input ''decoded_0_org'')])]))),
               Flatten (Input ''org_h'')])
        \<and> map_option inputs (l' ''D'') =
            Some [''in_feats'', ''org_h'', ''decoded_0_cv'', ''cv_h'',
                  ''decoded_0_org'', ''cycle_decoder_mask'', ''decoded_0_org'', ''cycle_decoder_mask'',
                  ''in_feats'', ''decoder_mask'', ''in_feats'', ''decoder_mask'']"
    using t unfolding a
    by (auto simp: sample_outputs_def sample_batch_def branch_def string_of_nat_0)
  with h0 h0' h4 h5 show ?thesis unfolding tr_def by blast
qed

section \<open>Properties of update_G and update_D\<close>

lemma update_D_losses_stop_generator:
  "update_D_losses (tr\<lparr>stop_generator := s\<rparr>) b l g = update_D_losses tr b l g"
proof -
  have ac: "discriminator_acgan_body (tr\<lparr>stop_generator := s\<rparr>) b lbl
      = discriminator_acgan_body tr b lbl" for lbl
    by (intro ext)
       (simp add: discriminator_acgan_body_def criterion_call_def split_def Let_def cong: if_cong)
  have body: "cycle_discriminator_body (tr\<lparr>stop_generator := s\<rparr>) b outputs
      = cycle_discriminator_body tr b outputs" for outputs
    by (intro ext)
       (simp add: cycle_discriminator_body_def ac return_sample_def
          criterion_call_def split_def Let_def cong: if_cong)
  show ?thesis
    by (simp add: update_D_losses_def calculate_cycle_discriminator_loss_def body split_def)
qed

text \<open>
  C5: a call of \<open>update_G\<close> that returns takes the optimizer step for \<open>"G"\<close> (one call
  of \<open>step_model\<close> with \<open>model="G"\<close>, on the \<open>"G"\<close> total of the returned accumulator)
  if and only if \<open>phase\<close> is \<open>"train"\<close> and \<open>stop_generator\<close> is not set; a call of
  \<open>update_D\<close> that returns takes the step for \<open>"D"\<close> if and only if \<open>phase\<close> is
  \<open>"train"\<close>, and \<open>stop_generator\<close> has no effect on \<open>update_D\<close>. In both
  methods the accumulator returned is the one that the loss computations produce, and
  when the step is skipped the method returns exactly what these computations return.
\<close>

theorem update_step_conditions:
  "(update_G tr b l phase st = Inr (l', st') \<longrightarrow>
      update_G_losses tr b l phase = Inr l'
      \<and> rand st' = rand st
      \<and> (if phase = ''train'' \<and> \<not> stop_generator tr
          then \<exists>v. l' ''G'' = Some v \<and> stepped st' = stepped st @ [(''G'', v)]
          else stepped st' = stepped st))
   \<and> (\<not> (phase = ''train'' \<and> \<not> stop_generator tr) \<longrightarrow>
        update_G tr b l phase st = map_sum id (\<lambda>l'. (l', st)) (update_G_losses tr b l phase))
   \<and> (update_D tr b l phase st = Inr (l', st') \<longrightarrow>
        update_D_losses tr b l (rand st) = Inr (l', rand st')
      \<and> (if phase = ''train''
          then \<exists>v. l' ''D'' = Some v \<and> stepped st' = stepped st @ [(''D'', v)]
          else stepped st' = stepped st))
   \<and> (phase \<noteq> ''train'' \<longrightarrow>
        update_D tr b l phase st
          = map_sum id (\<lambda>(l', g'). (l', st\<lparr>rand := g'\<rparr>)) (update_D_losses tr b l (rand st)))
   \<and> update_D (tr\<lparr>stop_generator := s\<rparr>) b l phase st = update_D tr b l phase st"
proof (intro conjI impI)
  assume r: "update_G tr b l phase st = Inr (l', st')"
  then show "update_G_losses tr b l phase = Inr l'"
    by (auto simp: update_G_def step_model_def bind_err_def getitem_def
        split: sum.splits if_splits option.splits)
  from r show "rand st' = rand st"
    by (auto simp: update_G_def step_model_def bind_err_def getitem_def
        split: sum.splits if_splits option.splits)
  from r show "if phase = ''train'' \<and> \<not> stop_generator tr
          then \<exists>v. l' ''G'' = Some v \<and> stepped st' = stepped st @ [(''G'', v)]
          else stepped st' = stepped st"
    by (auto simp: update_G_def step_model_def bind_err_def getitem_def
        split: sum.splits if_splits option.splits)
next
  assume "\<not> (phase = ''train'' \<and> \<not> stop_generator tr)"
  then show "update_G tr b l phase st = map_sum id (\<lambda>l'. (l', st)) (update_G_losses tr b l phase)"
    by (auto simp: update_G_def bind_err_def split: sum.splits)
next
  assume r: "update_D tr b l phase st = Inr (l', st')"
  then show "update_D_losses tr b l (rand st) = Inr (l', rand st')"
    by (auto simp: update_D_def step_model_def bind_err_def getitem_def Let_def
        split: sum.splits if_splits option.splits prod.splits)
  from r show "if phase = ''train''
          then \<exists>v. l' ''D'' = Some v \<and> stepped st' = stepped st @ [(''D'', v)]
          else stepped st' = stepped st"
    by (auto simp: update_D_def step_model_def bind_err_def getitem_def Let_def
        split: sum.splits if_splits option.splits prod.splits)
next
  assume "phase \<noteq> ''train''"
  then show "update_D tr b l phase st
          = map_sum id (\<lambda>(l', g'). (l', st\<lparr>rand := g'\<rparr>)) (update_D_losses tr b l (rand st))"
    by (auto simp: update_D_def bind_err_def Let_def split: sum.splits prod.splits)
next
  show "update_D (tr\<lparr>stop_generator := s\<rparr>) b l phase st = update_D tr b l phase st"
    by (simp add: update_D_def update_D_losses_stop_generator)
qed


theorem update_step_conditions_witness:
  "(\<exists>l' st' v. update_G sample_trainer sample_batch sample_loss ''train''
          \<lparr>stepped = [], rand = (\<lambda>i. i)\<rparr> = Inr (l', st')
        \<and> l' ''G'' = Some v \<and> stepped st' = [(''G'', v)])
   \<and> (\<exists>l'. update_G (sample_trainer\<lparr>stop_generator := True\<rparr>) sample_batch sample_loss ''train''
          \<lparr>stepped = [], rand = (\<lambda>i. i)\<rparr> = Inr (l', \<lparr>stepped = [], rand = (\<lambda>i. i)\<rparr>))
   \<and> (\<exists>l' st' v. update_D sample_trainer sample_batch sample_loss ''train''
          \<lparr>stepped = [], rand = (\<lambda>i. i)\<rparr> = Inr (l', st')
        \<and> l' ''D'' = Some v \<and> stepped st' = [(''D'', v)])
   \<and> (\<exists>l' st'. update_D sample_trainer sample_batch sample_loss ''dev''
          \<lparr>stepped = [], rand = (\<lambda>i. i)\<rparr> = Inr (l', st') \<and> stepped st' = [])"
proof -
  define st0 :: tstate where "st0 = \<lparr>stepped = [], rand = (\<lambda>i. i)\<rparr>"
  note defs = update_G_losses_def update_D_losses_def
      calculate_cycleadv_loss_def cycleadv_body_def
      calculate_cycle_discriminator_loss_def cycle_discriminator_body_def
      sample_trainer_def sample_conf_def sample_batch_def sample_outputs_def sample_loss_def
      range_py_2 bind_err_def getitem_def list_get_def return_sample_def criterion_call_def
      loss_iadd_def branch_def random_choice_def string_of_nat.simps digit_def Let_def
  have gl: "\<exists>l'. update_G_losses sample_trainer sample_batch sample_loss ''train'' = Inr l'
             \<and> l' ''G'' \<noteq> None"
    by (simp add: defs)
  have gl': "update_G_losses (sample_trainer\<lparr>stop_generator := True\<rparr>) sample_batch sample_loss ''train''
      = update_G_losses sample_trainer sample_batch sample_loss ''train''"
    by (simp add: defs)
  have dl: "\<exists>l' g'. update_D_losses sample_trainer sample_batch sample_loss (\<lambda>i. i) = Inr (l', g')
             \<and> l' ''D'' \<noteq> None"
    by (simp add: defs)
  from gl obtain lg vg where lg: "update_G_losses sample_trainer sample_batch sample_loss ''train'' = Inr lg"
    and vg: "lg ''G'' = Some vg" by auto
  from dl obtain ld gd vd where ld: "update_D_losses sample_trainer sample_batch sample_loss (\<lambda>i. i) = Inr (ld, gd)"
    and vd: "ld ''D'' = Some vd" by auto
  have s: "\<not> stop_generator sample_trainer" by (simp add: sample_trainer_def)
  have rG: "update_G sample_trainer sample_batch sample_loss ''train'' st0
      = Inr (lg, st0\<lparr>stepped := stepped st0 @ [(''G'', vg)]\<rparr>)"
    using lg vg s by (simp add: update_G_def step_model_def bind_err_def getitem_def)
  have rD: "update_D sample_trainer sample_batch sample_loss ''train'' st0
      = Inr (ld, st0\<lparr>rand := gd, stepped := stepped st0 @ [(''D'', vd)]\<rparr>)"
    using ld vd by (simp add: update_D_def step_model_def bind_err_def getitem_def st0_def)
  note t1 = update_step_conditions[where tr=sample_trainer and b=sample_batch and l=sample_loss
      and phase="''train''" and st=st0 and l'=lg
      and st'="st0\<lparr>stepped := stepped st0 @ [(''G'', vg)]\<rparr>",
      THEN conjunct1, rule_format, OF rG]
  note t2 = update_step_conditions[where tr="sample_trainer\<lparr>stop_generator := True\<rparr>"
      and b=sample_batch and l=sample_loss and phase="''train''" and st=st0,
      THEN conjunct2, THEN conjunct1, rule_format]
  note t3 = update_step_conditions[where tr=sample_trainer and b=sample_batch and l=sample_loss
      and phase="''train''" and st=st0 and l'=ld
      and st'="st0\<lparr>rand := gd, stepped := stepped st0 @ [(''D'', vd)]\<rparr>",
      THEN conjunct2, THEN conjunct2, THEN conjunct1, rule_format, OF rD]
  note t4 = update_step_conditions[where tr=sample_trainer and b=sample_batch and l=sample_loss
      and phase="''dev''" and st=st0,
      THEN conjunct2, THEN conjunct2, THEN conjunct2, THEN conjunct1, rule_format]
  have a: "\<exists>l' st' v. update_G sample_trainer sample_batch sample_loss ''train'' st0 = Inr (l', st')
        \<and> l' ''G'' = Some v \<and> stepped st' = [(''G'', v)]"
    using rG t1 s by (auto simp: st0_def)
  have b: "\<exists>l'. update_G (sample_trainer\<lparr>stop_generator := True\<rparr>) sample_batch sample_loss ''train'' st0
      = Inr (l', st0)"
    using t2 gl' lg by simp
  have c: "\<exists>l' st' v. update_D sample_trainer sample_batch sample_loss ''train'' st0 = Inr (l', st')
        \<and> l' ''D'' = Some v \<and> stepped st' = [(''D'', v)]"
    using rD t3 by (auto simp: st0_def)
  have d: "\<exists>l' st'. update_D sample_trainer sample_batch sample_loss ''dev'' st0 = Inr (l', st')
       \<and> stepped st' = []"
    using t4 ld by (simp add: st0_def)
  from a b c d show ?thesis unfolding st0_def by blast
qed

section \<open>Properties of main\<close>

text \<open>
  C10: for every parsed command line (every value of \<open>--flag\<close> and of the other
  options) and every environment without CUDA, \<open>main\<close> ends with the assertion error
  \<open>"ERROR: Do not accept CPU training."\<close> and has made no external call: no
  configuration, data or model is loaded before the assertion.
\<close>

theorem main_rejects_cpu:
  assumes "\<not> cuda_is_available e"
  shows "main e a evs = (Inl (AssertionError ''ERROR: Do not accept CPU training.''), evs)"
  using assms by (simp add: main_def io_assert_def io_bind_def io_raise_def)

theorem main_rejects_cpu_witness:
  "\<not> cuda_is_available (sample_env\<lparr>cuda_is_available := False\<rparr>)
   \<and> main (sample_env\<lparr>cuda_is_available := False\<rparr>) sample_args []
       = (Inl (AssertionError ''ERROR: Do not accept CPU training.''), [])"
  using main_rejects_cpu[of "sample_env\<lparr>cuda_is_available := False\<rparr>" sample_args "[]"]
  by (simp add: sample_env_def)

text \<open>
  With CUDA the assertion passes and the first external call reads the configuration: when
  that call raises, it is the only event.
\<close>

lemma main_loads_configuration_first:
  assumes "cuda_is_available e" and "load_yaml e (arg_conf a) = Inl x"
  shows "main e a evs = (Inl x, evs @ [LoadYaml (arg_conf a)])"
  using assms
  by (simp add: main_def io_assert_def io_bind_def io_return_def io_call_def)

end
